theory Spec2Isabelle
  imports Complex_Main
begin

section \<open>Numerical values and numpy helpers\<close>

text \<open>
  A float64 value is a finite number, one of the two infinities, or NaN. Finite
  arithmetic is exact (rounding and overflow are left out), and the two zeros are not
  told apart: the only divisions by zero of the code below have a denominator that is
  an absolute value, or a positive constant.
\<close>

datatype fl = Fin real | PInf | NInf | NaN

text \<open>
  The exceptions of the code. \<open>ComplexValue\<close> is not one: it marks the power of a
  negative number with a fractional exponent, which is a complex number in Python and
  which the model does not follow any further.
\<close>

datatype exn = IndexError | ValueError | LinAlgError | SystemExit | UnboundLocalError
  | ZeroDivisionError | AttributeError | ComplexValue

definition ebind :: "exn + 'a \<Rightarrow> ('a \<Rightarrow> exn + 'b) \<Rightarrow> exn + 'b" where
  "ebind m f = (case m of Inl e \<Rightarrow> Inl e | Inr x \<Rightarrow> f x)"

text \<open>
  A part of a step either raises, or returns early with an exit status (\<open>Inr (Inl s)\<close>
  stands for \<open>return s, None\<close>), or goes on with a value.
\<close>

definition sbind :: "exn + (nat + 'a) \<Rightarrow> ('a \<Rightarrow> exn + (nat + 'b)) \<Rightarrow> exn + (nat + 'b)" where
  "sbind m f = (case m of Inl e \<Rightarrow> Inl e | Inr (Inl s) \<Rightarrow> Inr (Inl s) | Inr (Inr x) \<Rightarrow> f x)"

definition lift :: "exn + 'a \<Rightarrow> exn + (nat + 'a)" where
  "lift m = (case m of Inl e \<Rightarrow> Inl e | Inr x \<Rightarrow> Inr (Inr x))"

fun isnan :: "fl \<Rightarrow> bool" where
  "isnan NaN = True"
| "isnan _ = False"

fun fl_neg :: "fl \<Rightarrow> fl" where
  "fl_neg (Fin a) = Fin (- a)"
| "fl_neg PInf = NInf"
| "fl_neg NInf = PInf"
| "fl_neg NaN = NaN"

fun fl_abs :: "fl \<Rightarrow> fl" where
  "fl_abs (Fin a) = Fin \<bar>a\<bar>"
| "fl_abs PInf = PInf"
| "fl_abs NInf = PInf"
| "fl_abs NaN = NaN"

fun fl_add :: "fl \<Rightarrow> fl \<Rightarrow> fl" where
  "fl_add NaN _ = NaN"
| "fl_add _ NaN = NaN"
| "fl_add (Fin a) (Fin b) = Fin (a + b)"
| "fl_add PInf NInf = NaN"
| "fl_add NInf PInf = NaN"
| "fl_add PInf _ = PInf"
| "fl_add _ PInf = PInf"
| "fl_add NInf _ = NInf"
| "fl_add _ NInf = NInf"

definition fl_sub :: "fl \<Rightarrow> fl \<Rightarrow> fl" where
  "fl_sub a b = fl_add a (fl_neg b)"

fun fl_mul :: "fl \<Rightarrow> fl \<Rightarrow> fl" where
  "fl_mul NaN _ = NaN"
| "fl_mul _ NaN = NaN"
| "fl_mul (Fin a) (Fin b) = Fin (a * b)"
| "fl_mul (Fin a) PInf = (if 0 < a then PInf else if a < 0 then NInf else NaN)"
| "fl_mul (Fin a) NInf = (if 0 < a then NInf else if a < 0 then PInf else NaN)"
| "fl_mul PInf (Fin b) = (if 0 < b then PInf else if b < 0 then NInf else NaN)"
| "fl_mul NInf (Fin b) = (if 0 < b then NInf else if b < 0 then PInf else NaN)"
| "fl_mul PInf PInf = PInf"
| "fl_mul PInf NInf = NInf"
| "fl_mul NInf PInf = NInf"
| "fl_mul NInf NInf = PInf"

fun fl_div :: "fl \<Rightarrow> fl \<Rightarrow> fl" where
  "fl_div NaN _ = NaN"
| "fl_div _ NaN = NaN"
| "fl_div (Fin a) (Fin b) =
     (if b \<noteq> 0 then Fin (a / b)
      else if 0 < a then PInf else if a < 0 then NInf else NaN)"
| "fl_div (Fin a) PInf = Fin 0"
| "fl_div (Fin a) NInf = Fin 0"
| "fl_div PInf (Fin b) = (if 0 \<le> b then PInf else NInf)"
| "fl_div NInf (Fin b) = (if 0 \<le> b then NInf else PInf)"
| "fl_div PInf _ = NaN"
| "fl_div NInf _ = NaN"

fun fl_sqrt :: "fl \<Rightarrow> fl" where
  "fl_sqrt (Fin a) = (if a < 0 then NaN else Fin (sqrt a))"
| "fl_sqrt PInf = PInf"
| "fl_sqrt NInf = NaN"
| "fl_sqrt NaN = NaN"

text \<open>Comparisons: every comparison with NaN is false.\<close>

fun fl_lt :: "fl \<Rightarrow> fl \<Rightarrow> bool" where
  "fl_lt NaN _ = False"
| "fl_lt _ NaN = False"
| "fl_lt (Fin a) (Fin b) = (a < b)"
| "fl_lt _ NInf = False"
| "fl_lt NInf _ = True"
| "fl_lt PInf _ = False"
| "fl_lt (Fin a) PInf = True"

fun fl_le :: "fl \<Rightarrow> fl \<Rightarrow> bool" where
  "fl_le NaN _ = False"
| "fl_le _ NaN = False"
| "fl_le (Fin a) (Fin b) = (a \<le> b)"
| "fl_le NInf _ = True"
| "fl_le _ PInf = True"
| "fl_le PInf _ = False"
| "fl_le (Fin a) NInf = False"

definition fl_gt :: "fl \<Rightarrow> fl \<Rightarrow> bool" where
  "fl_gt a b = fl_lt b a"

definition fl_ge :: "fl \<Rightarrow> fl \<Rightarrow> bool" where
  "fl_ge a b = fl_le b a"

definition fl_eq :: "fl \<Rightarrow> fl \<Rightarrow> bool" where
  "fl_eq a b = (\<not> isnan a \<and> a = b)"

text \<open>\<open>np.minimum\<close> hands a NaN of either argument on.\<close>

definition np_minimum :: "fl \<Rightarrow> fl \<Rightarrow> fl" where
  "np_minimum a b = (if isnan a \<or> isnan b then NaN else if fl_le a b then a else b)"

text \<open>
  Python's \<open>max\<close> of a sequence: the first entry, replaced by each later one that
  compares greater; \<open>ValueError\<close> for an empty sequence.
\<close>

definition py_max :: "fl list \<Rightarrow> exn + fl" where
  "py_max xs =
     (case xs of [] \<Rightarrow> Inl ValueError
      | x # r \<Rightarrow> Inr (foldl (\<lambda>m y. if fl_gt y m then y else m) x r))"

definition fl_sum :: "fl list \<Rightarrow> fl" where
  "fl_sum xs = foldl fl_add (Fin 0) xs"

text \<open>\<open>np.linalg.norm\<close> of a vector: the root of the sum of the squares.\<close>

definition np_norm :: "fl list \<Rightarrow> fl" where
  "np_norm xs = fl_sqrt (fl_sum (map (\<lambda>x. fl_mul (fl_abs x) (fl_abs x)) xs))"

text \<open>\<open>np.mean\<close>: the sum over the number of entries (NaN for an empty array).\<close>

definition np_mean :: "fl list \<Rightarrow> fl" where
  "np_mean xs = fl_div (fl_sum xs) (Fin (real (length xs)))"

text \<open>
  \<open>a[idx]\<close> with an index array: the entries at these positions, \<open>IndexError\<close> when one
  of them is out of range. Cell numbers are never negative, so indices are naturals.
\<close>

definition np_take :: "'a list \<Rightarrow> nat list \<Rightarrow> exn + 'a list" where
  "np_take xs idx =
     (if \<forall>i \<in> set idx. i < length xs then Inr (map (\<lambda>i. xs ! i) idx)
      else Inl IndexError)"

text \<open>
  \<open>np.delete(a, idx)\<close>: the array without the positions listed. A position beyond the
  end raises \<open>IndexError\<close> from numpy 1.19 on (\<open>strict\<close>) and was skipped, with a
  deprecation warning, before.
\<close>

definition np_delete :: "bool \<Rightarrow> 'a list \<Rightarrow> nat list \<Rightarrow> exn + 'a list" where
  "np_delete strict xs idx =
     (if strict \<and> (\<exists>i \<in> set idx. length xs \<le> i) then Inl IndexError
      else Inr (map (\<lambda>j. xs ! j) (filter (\<lambda>j. j \<notin> set idx) [0..<length xs])))"

text \<open>A dense matrix: its shape and its entries.\<close>

record mat =
  nr :: nat
  nc :: nat
  ent :: "nat \<Rightarrow> nat \<Rightarrow> fl"

text \<open>\<open>C[np.ix_(rows, cols)]\<close> read: a fresh copy of the block, row by row.\<close>

definition np_ix :: "mat \<Rightarrow> nat list \<Rightarrow> nat list \<Rightarrow> exn + fl list list" where
  "np_ix C rows cols =
     (if (\<forall>r \<in> set rows. r < nr C) \<and> (\<forall>c \<in> set cols. c < nc C)
      then Inr (map (\<lambda>r. map (\<lambda>c. ent C r c) cols) rows)
      else Inl IndexError)"

text \<open>
  \<open>np.dot(M, v)\<close> for a block \<open>M\<close> with \<open>ncols\<close> columns, given by its rows:
  \<open>ValueError\<close> when the vector has another length.
\<close>

definition np_dot :: "fl list list \<Rightarrow> nat \<Rightarrow> fl list \<Rightarrow> exn + fl list" where
  "np_dot rows ncols v =
     (if length v = ncols then Inr (map (\<lambda>r. fl_sum (map2 fl_mul r v)) rows)
      else Inl ValueError)"

text \<open>\<open>A[-1, -1] = v\<close> on a matrix given by its rows.\<close>

definition set_last_entry :: "'a list list \<Rightarrow> 'a \<Rightarrow> exn + 'a list list" where
  "set_last_entry A v =
     (if A = [] \<or> last A = [] then Inl IndexError
      else Inr (butlast A @ [butlast (last A) @ [v]]))"

text \<open>
  Elementwise operation on two arrays, with numpy's broadcasting of an array of
  length one; \<open>ValueError\<close> for any other pair of different lengths.
\<close>

definition np_bin :: "(fl \<Rightarrow> fl \<Rightarrow> fl) \<Rightarrow> fl list \<Rightarrow> fl list \<Rightarrow> exn + fl list" where
  "np_bin f a b =
     (if length a = length b then Inr (map2 f a b)
      else if length a = 1 then Inr (map (\<lambda>y. f (hd a) y) b)
      else if length b = 1 then Inr (map (\<lambda>x. f x (hd b)) a)
      else Inl ValueError)"

text \<open>
  \<open>a[idx] = vals\<close> with an index array and as many values (or one value, which is
  then written everywhere): the writes happen in order, so the last one wins for a
  repeated index. \<open>a[idx] = c\<close> writes the scalar \<open>c\<close> everywhere.
\<close>

definition np_put :: "'a list \<Rightarrow> nat list \<Rightarrow> 'a list \<Rightarrow> exn + 'a list" where
  "np_put xs idx vals =
     (if \<not> (\<forall>i \<in> set idx. i < length xs) then Inl IndexError
      else if length vals = length idx
        then Inr (fold (\<lambda>(i, v) ys. ys[i := v]) (zip idx vals) xs)
      else if length vals = 1
        then Inr (fold (\<lambda>i ys. ys[i := hd vals]) idx xs)
      else Inl ValueError)"

definition np_fill :: "'a list \<Rightarrow> nat list \<Rightarrow> 'a \<Rightarrow> exn + 'a list" where
  "np_fill xs idx c =
     (if \<forall>i \<in> set idx. i < length xs then Inr (fold (\<lambda>i ys. ys[i := c]) idx xs)
      else Inl IndexError)"

text \<open>\<open>C[np.ix_(rows, cols)] = block\<close>: the block is written back entry by entry.\<close>

definition ent_upd :: "(nat \<Rightarrow> nat \<Rightarrow> fl) \<Rightarrow> nat \<Rightarrow> nat \<Rightarrow> fl \<Rightarrow> (nat \<Rightarrow> nat \<Rightarrow> fl)" where
  "ent_upd E i j x = E(i := (E i)(j := x))"

definition np_ix_put :: "mat \<Rightarrow> nat list \<Rightarrow> nat list \<Rightarrow> fl list list \<Rightarrow> exn + mat" where
  "np_ix_put C rows cols block =
     (if \<not> ((\<forall>r \<in> set rows. r < nr C) \<and> (\<forall>c \<in> set cols. c < nc C)) then Inl IndexError
      else if \<not> (length block = length rows \<and> (\<forall>r \<in> set block. length r = length cols))
        then Inl ValueError
      else Inr (C\<lparr>ent :=
             fold (\<lambda>a E. fold (\<lambda>b E'. ent_upd E' (rows ! a) (cols ! b) (block ! a ! b))
                               [0..<length cols] E)
                  [0..<length rows] (ent C)\<rparr>))"

section \<open>ElastoHydrodynamicSolver\<close>

subsection \<open>MakeEquationSystem_volumeControl\<close>

text \<open>
  The system of the volume-control branch (ElastoHydrodynamicSolver.py, 853-869):
  \<open>Ccc\<close> with a column of \<open>-1\<close> beside it, a last row of ones whose last entry is set
  to zero, and the right-hand side with the volume balance appended.
\<close>

definition MakeEquationSystem_volumeControl ::
  "fl list \<Rightarrow> fl list \<Rightarrow> nat list \<Rightarrow> nat list \<Rightarrow> fl list \<Rightarrow> mat \<Rightarrow> fl \<Rightarrow> fl list \<Rightarrow> fl
     \<Rightarrow> fl list \<Rightarrow> exn + (fl list list \<times> fl list)" where
  "MakeEquationSystem_volumeControl w_lst_tmstp wTip EltChannel EltTip sigma_o C dt Q
       ElemArea lkOff =
     ebind (np_ix C EltChannel EltChannel) (\<lambda>Ccc.
     ebind (np_ix C EltChannel EltTip) (\<lambda>Cct.
     let A0 = map (\<lambda>r. r @ [Fin (- 1)]) Ccc;
         A1 = A0 @ [replicate (length EltChannel + 1) (Fin 1)]
     in
     ebind (set_last_entry A1 (Fin 0)) (\<lambda>A.
     ebind (np_take sigma_o EltChannel) (\<lambda>s0.
     ebind (np_take w_lst_tmstp EltChannel) (\<lambda>wc.
     ebind (np_dot Ccc (length EltChannel) wc) (\<lambda>d1.
     ebind (np_dot Cct (length EltTip) wTip) (\<lambda>d2.
     ebind (np_take w_lst_tmstp EltTip) (\<lambda>wt_old.
     let S0 = map2 fl_sub (map2 fl_sub (map fl_neg s0) d1) d2;
         S = S0 @ [fl_sub (fl_sub (fl_div (fl_mul (fl_sum Q) dt) ElemArea)
                                  (fl_sub (fl_sum wTip) (fl_sum wt_old)))
                          (fl_sum lkOff)]
     in Inr (A, S)))))))))"

subsection \<open>check_covergance\<close>

text \<open>The componentwise relative difference \<open>abs(a - b) / abs(b)\<close> of two vectors.\<close>

definition rel_diff :: "fl list \<Rightarrow> fl list \<Rightarrow> fl list" where
  "rel_diff a b = map2 (\<lambda>x y. fl_div (fl_abs (fl_sub x y)) (fl_abs y)) a b"

text \<open>
  \<open>check_covergance\<close> (ElastoHydrodynamicSolver.py, 1001-1035). \<open>indices\<close> holds three
  index arrays: the widths, the pressures and the tractions in the solution vector.
  The zeros of the last iterate are looked for in the whole vector, and their positions
  are then deleted from the width part.
\<close>

definition check_covergance ::
  "bool \<Rightarrow> fl list \<Rightarrow> fl list \<Rightarrow> nat list list \<Rightarrow> fl \<Rightarrow> exn + (bool \<times> fl)" where
  "check_covergance strict solk solkm1 indices tol =
     (if length indices < 3 then Inl IndexError else
      let solkm1_is_0 = filter (\<lambda>i. fl_eq (solkm1 ! i) (Fin 0)) [0..<length solkm1] in
      ebind (if 0 < length solkm1_is_0 then
               ebind (np_take solk (indices ! 0)) (\<lambda>delw.
               ebind (np_take solkm1 (indices ! 0)) (\<lambda>delw_km1.
               ebind (np_delete strict delw solkm1_is_0) (\<lambda>delw'.
               ebind (np_delete strict delw_km1 solkm1_is_0) (\<lambda>delw_km1'.
               Inr (np_norm (rel_diff delw' delw_km1'))))))
             else
               ebind (np_take solk (indices ! 0)) (\<lambda>a.
               ebind (np_take solkm1 (indices ! 0)) (\<lambda>b.
               Inr (np_norm (rel_diff a b))))) (\<lambda>norm_w.
      ebind (np_take solk (indices ! 1)) (\<lambda>pk.
      ebind (np_take solkm1 (indices ! 1)) (\<lambda>pkm1.
      let norm_p = np_norm (rel_diff pk pkm1) in
      ebind (if 0 < length (indices ! 2) then
               ebind (np_take solk (indices ! 2)) (\<lambda>tk.
               ebind (np_take solkm1 (indices ! 2)) (\<lambda>tkm1.
               Inr (np_norm (rel_diff tk tkm1))))
             else Inr (Fin 0)) (\<lambda>norm_tr.
      let nrm = fl_div (fl_add (fl_add norm_w norm_p) norm_tr) (Fin 3);
          converged = (fl_le norm_w tol \<and> fl_le norm_p tol \<and> fl_le norm_tr tol)
      in Inr (converged, nrm))))))"

text \<open>
  The convergence test in the words of the specification: the three norms are at most
  the tolerance, and the width norm leaves out the widths whose last iterate is zero.
\<close>

definition spec_converged :: "fl list \<Rightarrow> fl list \<Rightarrow> nat list list \<Rightarrow> fl \<Rightarrow> bool" where
  "spec_converged solk solkm1 indices tol =
     (let kept = filter (\<lambda>i. \<not> fl_eq (solkm1 ! i) (Fin 0)) (indices ! 0);
          norm_w = np_norm (rel_diff (map (\<lambda>i. solk ! i) kept) (map (\<lambda>i. solkm1 ! i) kept));
          norm_p = np_norm (rel_diff (map (\<lambda>i. solk ! i) (indices ! 1))
                                     (map (\<lambda>i. solkm1 ! i) (indices ! 1)));
          norm_tr = np_norm (rel_diff (map (\<lambda>i. solk ! i) (indices ! 2))
                                      (map (\<lambda>i. solkm1 ! i) (indices ! 2)))
      in fl_le norm_w tol \<and> fl_le norm_p tol \<and> fl_le norm_tr tol)"

subsection \<open>Picard_Newton\<close>

text \<open>
  The functions the solver is called with, and \<open>np.linalg.solve\<close>. The system
  function returns the matrix, the right-hand side, the data handed from one iteration
  to the next, and the three index arrays of \<open>check_covergance\<close>.
\<close>

record 'i solver_funs =
  sys_fun :: "fl list \<Rightarrow> 'i \<Rightarrow> exn + (fl list list \<times> fl list \<times> 'i \<times> nat list list)"
  Res_fun :: "fl list \<Rightarrow> 'i \<Rightarrow> exn + (fl list \<times> 'i \<times> nat list list)"
  Jacobian :: "fl list \<Rightarrow> fl list \<Rightarrow> 'i \<Rightarrow> exn + fl list list"
  np_linalg_solve :: "fl list list \<Rightarrow> fl list \<Rightarrow> exn + fl list"

text \<open>What the solver prints when it leaves.\<close>

datatype printed = Singular_matrix | Not_converged nat | Converged_after nat

text \<open>
  The Picard branch of the loop body (941-955 of ElastoHydrodynamicSolver.py): the
  \<open>try\<close> block catches \<open>LinAlgError\<close> only, which is the result \<open>Inl None\<close> here; any
  other exception goes on.
\<close>

definition caught :: "exn \<Rightarrow> exn option" where
  "caught e = (if e = LinAlgError then None else Some e)"

definition picard_update ::
  "'i solver_funs \<Rightarrow> fl \<Rightarrow> fl list \<Rightarrow> 'i
     \<Rightarrow> exn option + (fl list \<times> 'i \<times> nat list list)" where
  "picard_update F relax solk interItr =
     (case sys_fun F solk interItr of
        Inl e \<Rightarrow> Inl (caught e)
      | Inr (A, b, interItr', indices) \<Rightarrow>
          (case np_linalg_solve F A b of
             Inl e \<Rightarrow> Inl (caught e)
           | Inr x \<Rightarrow>
               (case np_bin fl_add (map (fl_mul (fl_sub (Fin 1) relax)) solk)
                                   (map (fl_mul relax) x) of
                  Inl e \<Rightarrow> Inl (caught e)
                | Inr solk' \<Rightarrow> Inr (solk', interItr', indices))))"

text \<open>The Newton branch: nothing is caught here.\<close>

definition newton_update ::
  "'i solver_funs \<Rightarrow> fl list \<Rightarrow> fl list \<Rightarrow> 'i \<Rightarrow> nat \<Rightarrow> fl list list option
     \<Rightarrow> exn + (fl list \<times> 'i \<times> nat list list \<times> fl list list option)" where
  "newton_update F TypValue solk interItr newton Jac =
     ebind (Res_fun F solk interItr) (\<lambda>(Fx, interItr', indices).
     ebind (if newton mod 3 = 0
            then ebind (Jacobian F solk TypValue interItr') (\<lambda>J. Inr (Some J))
            else Inr Jac) (\<lambda>Jac'.
     (case Jac' of
        None \<Rightarrow> Inl UnboundLocalError
      | Some J \<Rightarrow>
          ebind (np_linalg_solve F J (map fl_neg Fx)) (\<lambda>dx.
          ebind (np_bin fl_add solk dx) (\<lambda>solk'.
          Inr (solk', interItr', indices, Jac'))))))"

text \<open>One pass through the body of the \<open>while\<close> loop.\<close>

datatype 'i pn_step =
    Raised exn
  | Returned "fl list" "'i option" printed
  | Continue "fl list" 'i nat "fl list list option" bool

definition Picard_Newton_body ::
  "'i solver_funs \<Rightarrow> bool \<Rightarrow> fl list \<Rightarrow> fl \<Rightarrow> nat \<Rightarrow> fl \<Rightarrow> nat \<Rightarrow> nat \<Rightarrow> fl list \<Rightarrow> 'i \<Rightarrow> nat
     \<Rightarrow> fl list list option \<Rightarrow> 'i pn_step" where
  "Picard_Newton_body F strict TypValue Tol maxitr relax PicardPerNewton k solk interItr
       newton Jac =
     (let solkm1 = solk;
          upd = (if PicardPerNewton = 0 then Inl (Some ZeroDivisionError)
                 else if k mod PicardPerNewton = 0 then
                   (case newton_update F TypValue solk interItr newton Jac of
                      Inl e \<Rightarrow> Inl (Some e)
                    | Inr (solk', interItr', indices, Jac') \<Rightarrow>
                        Inr (solk', interItr', indices, newton + 1, Jac'))
                 else
                   (case picard_update F relax solk interItr of
                      Inl e \<Rightarrow> Inl e
                    | Inr (solk', interItr', indices) \<Rightarrow>
                        Inr (solk', interItr', indices, newton, Jac)))
      in case upd of
           Inl None \<Rightarrow> Returned (replicate (length solk) NaN) None Singular_matrix
         | Inl (Some e) \<Rightarrow> Raised e
         | Inr (solk', interItr', indices, newton', Jac') \<Rightarrow>
             (case check_covergance strict solk' solkm1 indices Tol of
                Inl e \<Rightarrow> Raised e
              | Inr (converged, nrm) \<Rightarrow>
                  if Suc k = maxitr
                  then Returned (replicate (length solk') NaN) None (Not_converged maxitr)
                  else Continue solk' interItr' newton' Jac' converged))"

text \<open>
  The loop \<open>while not converged and k < maxitr\<close>, and the solver itself
  (908-972): it starts from \<open>k = 1\<close>, so at most \<open>maxitr - 1\<close> passes are made.
\<close>

function Picard_Newton_loop ::
  "'i solver_funs \<Rightarrow> bool \<Rightarrow> fl list \<Rightarrow> fl \<Rightarrow> nat \<Rightarrow> fl \<Rightarrow> nat \<Rightarrow> bool \<Rightarrow> nat \<Rightarrow> fl list \<Rightarrow> 'i
     \<Rightarrow> nat \<Rightarrow> fl list list option \<Rightarrow> exn + (fl list \<times> 'i option \<times> printed)" where
  "Picard_Newton_loop F strict TypValue Tol maxitr relax PicardPerNewton converged k solk
       interItr newton Jac =
     (if \<not> converged \<and> k < maxitr then
        (case Picard_Newton_body F strict TypValue Tol maxitr relax PicardPerNewton k solk
                interItr newton Jac of
           Raised e \<Rightarrow> Inl e
         | Returned s d m \<Rightarrow> Inr (s, d, m)
         | Continue solk' interItr' newton' Jac' converged' \<Rightarrow>
             Picard_Newton_loop F strict TypValue Tol maxitr relax PicardPerNewton converged'
               (Suc k) solk' interItr' newton' Jac')
      else Inr (solk, Some interItr, Converged_after k))"
  by pat_completeness auto
termination
  by (relation "measure (\<lambda>(F, strict, TypValue, Tol, maxitr, relax, PicardPerNewton,
        converged, k, solk, interItr, newton, Jac). maxitr - k)") auto

definition Picard_Newton ::
  "'i solver_funs \<Rightarrow> bool \<Rightarrow> fl list \<Rightarrow> fl list \<Rightarrow> 'i \<Rightarrow> fl \<Rightarrow> nat \<Rightarrow> fl \<Rightarrow> nat
     \<Rightarrow> exn + (fl list \<times> 'i option \<times> printed)" where
  "Picard_Newton F strict guess TypValue interItr_init Tol maxitr relax PicardPerNewton =
     Picard_Newton_loop F strict TypValue Tol maxitr relax PicardPerNewton False 1 guess
       interItr_init 0 None"

section \<open>The state of a simulation\<close>

subsection \<open>CartesianMesh\<close>

text \<open>
  \<open>Neighbors\<close> (CartesianMesh.py, 164-202): the left, right, bottom and top neighbours
  of a cell; a cell on the boundary is its own neighbour on that side.
\<close>

definition Neighbors :: "nat \<Rightarrow> nat \<Rightarrow> nat \<Rightarrow> exn + nat list" where
  "Neighbors elem nx ny =
     (if nx = 0 then Inl ZeroDivisionError else
      let j = elem div nx; i = elem mod nx;
          left = (if i = 0 then elem else j * nx + i - 1);
          right = (if i = nx - 1 then elem else j * nx + i + 1);
          bottom = (if j = 0 then elem else (j - 1) * nx + i);
          up = (if int j = int ny - 1 then elem else (j + 1) * nx + i)
      in Inr [left, right, bottom, up])"

record mesh =
  NumberOfElts :: nat
  hx :: fl
  hy :: fl
  EltArea :: fl
  NeiElements :: "nat list list"

subsection \<open>Fracture and the property objects\<close>

text \<open>
  The fields of a \<open>Fracture\<close> object that the time stepping reads or writes. The class
  itself is not among the sources; its fields carry the prefix \<open>fr_\<close> here.
\<close>

record fracture =
  fr_w :: "fl list"
  fr_p :: "fl list"
  fr_sgndDist :: "fl list"
  fr_EltChannel :: "nat list"
  fr_EltTip :: "nat list"
  fr_EltCrack :: "nat list"
  fr_EltRibbon :: "nat list"
  fr_FillF :: "fl list"
  fr_alpha :: "fl list"
  fr_l :: "fl list"
  fr_v :: "fl list option"
  fr_ZeroVertex :: "nat list"
  fr_InCrack :: "nat list"
  fr_time :: fl
  fr_muPrime :: "fl list"
  fr_mesh :: mesh
  fr_FractureVolume :: fl
  fr_sgndDist_last :: "fl list"
  fr_timeStep_last :: fl

datatype asymptote = Asym_A | Asym_K | Asym_M | Asym_Mt | Asym_MK | Asym_U | Asym_Kt

datatype front_advancing = Explicit | Semi_implicit | Implicit | Other_advancing

text \<open>
  The fields of \<open>SimulationParameters\<close> and \<open>MaterialProperties\<close> that decide the
  control flow. Of the toughness functions only whether they are given matters here.
\<close>

record sim_prop =
  toleranceEHL :: fl
  maxSolverItr :: nat
  tolFractFront :: fl
  maxFrontItr :: nat
  toleranceToughness :: fl
  maxToughnessItr :: nat
  tmStpPrefactor :: fl
  tipAsymptote :: asymptote
  frontAdvancing :: front_advancing
  timeStep_limit :: fl
  maxReattempts :: nat
  reAttemptFactor :: real

record mat_prop =
  anisotropic :: bool
  KprimeFunc_given :: bool
  K1cFunc_given :: bool

subsection \<open>Functions from outside\<close>

text \<open>
  The functions that the time stepping calls and that are not among the sources
  (\<open>src.LevelSet\<close>, \<open>src.VolIntegral\<close>, the methods of \<open>Fracture\<close>, the system functions
  of the two footprints), the numerical routines (\<open>np.linalg.solve\<close>, and the tip
  inversion, which is a root search by \<open>scipy.optimize.brentq\<close>), and helpers whose
  value is only handed on to them. They are parameters of the model, each with the
  arguments of its call that can change during a step; each may raise.
\<close>

record 'i env =
  numpy_strict :: bool
  velocity :: "fl list \<Rightarrow> nat list \<Rightarrow> nat list \<Rightarrow> mat \<Rightarrow> exn + 'i"
  sameFP_funs :: "fracture \<Rightarrow> mat \<Rightarrow> fl \<Rightarrow> fl list \<Rightarrow> 'i solver_funs"
  extendedFP_funs :: "fracture \<Rightarrow> nat list \<Rightarrow> fl list \<Rightarrow> nat list \<Rightarrow> nat list \<Rightarrow> mat \<Rightarrow> fl
      \<Rightarrow> fl list \<Rightarrow> 'i solver_funs"
  toughness_at_tip_CellCenter :: "nat list \<Rightarrow> mesh \<Rightarrow> fl list \<Rightarrow> exn + fl list"
  TipAsymInversion :: "fl list \<Rightarrow> fracture \<Rightarrow> fl \<Rightarrow> fl list option \<Rightarrow> exn + fl list"
  SolveFMM :: "fl list \<Rightarrow> nat list \<Rightarrow> nat list \<Rightarrow> mesh \<Rightarrow> nat list \<Rightarrow> nat list \<Rightarrow> exn + fl list"
  reconstruct_front :: "fl list \<Rightarrow> nat list \<Rightarrow> mesh
      \<Rightarrow> exn + (nat list \<times> fl list \<times> fl list \<times> nat list)"
  VolumeIntegral :: "nat list \<Rightarrow> fl list \<Rightarrow> fl list \<Rightarrow> mesh \<Rightarrow> asymptote \<Rightarrow> fl list \<Rightarrow> fl list
      \<Rightarrow> (bool list \<times> fl list) option \<Rightarrow> exn + fl list"
  Integral_over_cell :: "nat list \<Rightarrow> fl list \<Rightarrow> fl list \<Rightarrow> mesh \<Rightarrow> asymptote
      \<Rightarrow> fl list option \<Rightarrow> fl list option \<Rightarrow> (bool list \<times> fl list) option \<Rightarrow> exn + fl list"
  UpdateLists :: "nat list \<Rightarrow> nat list \<Rightarrow> fl list \<Rightarrow> fl list \<Rightarrow> mesh
      \<Rightarrow> exn + (nat list \<times> nat list \<times> nat list \<times> nat list \<times> nat list \<times> nat list)"
  StressIntensityFactor :: "fl list \<Rightarrow> fl list \<Rightarrow> nat list \<Rightarrow> nat list \<Rightarrow> bool list \<Rightarrow> mesh
      \<Rightarrow> exn + fl list"
  process_fracture_front :: "fracture \<Rightarrow> exn + fracture"
  projection_from_ribbon :: "nat list \<Rightarrow> nat list \<Rightarrow> mesh \<Rightarrow> fl list \<Rightarrow> exn + fl list"
  get_toughness_from_cellCenter :: "fl list \<Rightarrow> fl list \<Rightarrow> nat list \<Rightarrow> mesh \<Rightarrow> exn + fl list"
  get_toughness_from_zeroVertex :: "nat list \<Rightarrow> mesh \<Rightarrow> fl list \<Rightarrow> fl list \<Rightarrow> nat list
      \<Rightarrow> exn + fl list"
  find_zero_vertex :: "nat list \<Rightarrow> fl list \<Rightarrow> mesh \<Rightarrow> exn + nat list"
  MakeEquationSystem_volumeControl_sameFP :: "fl list \<Rightarrow> nat list \<Rightarrow> mat \<Rightarrow> fl \<Rightarrow> fl \<Rightarrow> fl
      \<Rightarrow> exn + (fl list list \<times> fl list)"
  MakeEquationSystem_volumeControl_extendedFP :: "fl list \<Rightarrow> fl list \<Rightarrow> nat list \<Rightarrow> nat list
      \<Rightarrow> mat \<Rightarrow> fl \<Rightarrow> fl \<Rightarrow> fl \<Rightarrow> exn + (fl list list \<times> fl list)"
  linalg_solve :: "fl list list \<Rightarrow> fl list \<Rightarrow> exn + fl list"

section \<open>The tip correction of the elasticity matrix\<close>

text \<open>
  The factor of the filling fraction correction:
  \<open>r = FillF[e] - .25; if r < 0.1: r = 0.1; ac = (1 - r) / r\<close>, and the diagonal entry
  is multiplied by \<open>1. + ac * np.pi / 4.\<close>
\<close>

definition tip_factor :: "fl \<Rightarrow> fl" where
  "tip_factor F =
     (let r0 = fl_sub F (Fin (1 / 4));
          r = (if fl_lt r0 (Fin (1 / 10)) then Fin (1 / 10) else r0);
          ac = fl_div (fl_sub (Fin 1) r) r
      in fl_add (Fin 1) (fl_div (fl_mul ac (Fin pi)) (Fin 4)))"

text \<open>
  The loop \<open>for e in range(0, len(EltTip))\<close> over the positions \<open>es\<close> that are left:
  it multiplies the diagonal entry of the \<open>e\<close>-th tip cell by the factor of \<open>FillF[e]\<close>.
\<close>

fun tip_correction_loop :: "nat list \<Rightarrow> fl list \<Rightarrow> nat list \<Rightarrow> mat \<Rightarrow> exn + mat" where
  "tip_correction_loop Tip FillF [] C = Inr C"
| "tip_correction_loop Tip FillF (e # es) C =
     (if \<not> e < length FillF then Inl IndexError
      else if \<not> (e < length Tip \<and> Tip ! e < nr C \<and> Tip ! e < nc C) then Inl IndexError
      else tip_correction_loop Tip FillF es
             (C\<lparr>ent := ent_upd (ent C) (Tip ! e) (Tip ! e)
                         (fl_mul (ent C (Tip ! e) (Tip ! e)) (tip_factor (FillF ! e)))\<rparr>))"

text \<open>
  The scoped correction: the block of the tip cells is copied, the diagonal is
  corrected, \<open>body\<close> runs with the corrected matrix, and the block is written back.
  An exception of \<open>body\<close> is not caught, so the matrix is then left as it is.
\<close>

definition save_tip_block :: "mat \<Rightarrow> nat list \<Rightarrow> exn + fl list list" where
  "save_tip_block C Tip = np_ix C Tip Tip"

definition apply_tip_correction :: "mat \<Rightarrow> nat list \<Rightarrow> fl list \<Rightarrow> exn + mat" where
  "apply_tip_correction C Tip FillF = tip_correction_loop Tip FillF [0..<length Tip] C"

definition restore_tip_block :: "mat \<Rightarrow> nat list \<Rightarrow> fl list list \<Rightarrow> exn + mat" where
  "restore_tip_block C Tip C_EltTip = np_ix_put C Tip Tip C_EltTip"

section \<open>TimeSteppingViscousFluid\<close>

subsection \<open>injection_same_footprint\<close>

text \<open>
  Lines 207-214: a width that is negative but above minus the mean of the widths is
  replaced by a hundredth of its absolute value.
\<close>

definition small_negative_fix :: "fl list \<Rightarrow> fl list" where
  "small_negative_fix w_k =
     (let m = np_mean w_k
      in map (\<lambda>x. if fl_lt x (Fin 0) \<and> fl_gt x (fl_mul (Fin (- 1)) m)
                   then fl_mul (Fin (1 / 100)) (fl_abs x) else x) w_k)"

text \<open>Lines 217-223: the solution is not valid if a width is NaN or negative.\<close>

definition width_status :: "fl list \<Rightarrow> nat \<times> fl list option" where
  "width_status w_k =
     (if (\<exists>x \<in> set w_k. isnan x) \<or> (\<exists>x \<in> set w_k. fl_lt x (Fin 0)) then (5, None)
      else (1, Some w_k))"

text \<open>
  Lines 139-204: the width after the injection into the unchanged footprint, together
  with the elasticity matrix as the call leaves it and the message of the solver.
\<close>

definition same_footprint_width ::
  "'i env \<Rightarrow> fracture \<Rightarrow> mat \<Rightarrow> fl \<Rightarrow> fl list \<Rightarrow> sim_prop
     \<Rightarrow> exn + (fl list \<times> mat \<times> printed)" where
  "same_footprint_width E Fr_lstTmStp C timeStep Qin Simulation_Parameters =
     ebind (save_tip_block C (fr_EltTip Fr_lstTmStp)) (\<lambda>C_EltTip.
     ebind (apply_tip_correction C (fr_EltTip Fr_lstTmStp) (fr_FillF Fr_lstTmStp)) (\<lambda>C1.
     let n = length (fr_EltCrack Fr_lstTmStp);
         delwGuess = replicate n
           (fl_mul (fl_div (fl_mul timeStep (fl_sum Qin)) (Fin (real n))) (Fin 1))
     in
     ebind (np_take (fr_w Fr_lstTmStp) (fr_EltCrack Fr_lstTmStp)) (\<lambda>wc.
     ebind (np_bin fl_add wc delwGuess) (\<lambda>wc'.
     ebind (np_put (fr_w Fr_lstTmStp) (fr_EltCrack Fr_lstTmStp) wc') (\<lambda>wguess.
     ebind (velocity E wguess (fr_EltCrack Fr_lstTmStp) (fr_InCrack Fr_lstTmStp) C1) (\<lambda>vk.
     ebind (Picard_Newton (sameFP_funs E Fr_lstTmStp C1 timeStep Qin) (numpy_strict E)
              delwGuess delwGuess vk (toleranceEHL Simulation_Parameters)
              (maxSolverItr Simulation_Parameters) (Fin 1) 1000) (\<lambda>(sol, vel, msg).
     ebind (np_bin fl_add wc sol) (\<lambda>wsol.
     ebind (np_put (fr_w Fr_lstTmStp) (fr_EltCrack Fr_lstTmStp) wsol) (\<lambda>w_k.
     ebind (restore_tip_block C1 (fr_EltTip Fr_lstTmStp) C_EltTip) (\<lambda>C2.
     Inr (w_k, C2, msg)))))))))))"

definition injection_same_footprint ::
  "'i env \<Rightarrow> fracture \<Rightarrow> mat \<Rightarrow> fl \<Rightarrow> fl list \<Rightarrow> sim_prop
     \<Rightarrow> exn + (nat \<times> fl list option \<times> mat \<times> printed)" where
  "injection_same_footprint E Fr_lstTmStp C timeStep Qin Simulation_Parameters =
     ebind (same_footprint_width E Fr_lstTmStp C timeStep Qin Simulation_Parameters)
       (\<lambda>(w_k, C2, msg).
          let (exitstatus, res) = width_status (small_negative_fix w_k)
          in Inr (exitstatus, res, C2, msg))"

subsection \<open>Steps that both branches share\<close>

text \<open>
  The check of the reconstructed front (status 3): a NaN, a negative length, or an
  angle outside \<open>[0, pi / 2]\<close>. The two arrays come from one call and have one length.
\<close>

definition front_invalid :: "fl list \<Rightarrow> fl list \<Rightarrow> exn + bool" where
  "front_invalid alpha_k l_k =
     (if length alpha_k \<noteq> length l_k then Inl ValueError
      else Inr ((\<exists>x \<in> set alpha_k. isnan x) \<or> (\<exists>x \<in> set l_k. isnan x)
                \<or> (\<exists>x \<in> set l_k. fl_lt x (Fin 0)) \<or> (\<exists>x \<in> set alpha_k. fl_lt x (Fin 0))
                \<or> (\<exists>x \<in> set alpha_k. fl_gt x (Fin (pi / 2)))))"

text \<open>
  The check for the end of the grid: some tip cell is among its own four neighbours
  (\<open>tipNeighb = mesh.NeiElements[EltsTipNew, :]\<close>).
\<close>

definition reached_end :: "mesh \<Rightarrow> nat list \<Rightarrow> exn + bool" where
  "reached_end M EltsTipNew =
     ebind (np_take (NeiElements M) EltsTipNew) (\<lambda>tipNeighb.
     Inr (\<exists>i \<in> set [0..<length EltsTipNew]. EltsTipNew ! i \<in> set (tipNeighb ! i)))"

definition make_InCrack :: "nat \<Rightarrow> nat list \<Rightarrow> nat list \<Rightarrow> exn + nat list" where
  "make_InCrack n EltChannel EltsTipNew =
     ebind (np_fill (replicate n 0) EltChannel 1) (\<lambda>ic.
     np_fill ic EltsTipNew 1)"

text \<open>\<open>Vel_k = -(sgndDist_k[EltsTipNew] - Fr_lstTmStp.sgndDist[EltsTipNew]) / timeStep\<close>\<close>

definition front_velocity :: "fl list \<Rightarrow> fl list \<Rightarrow> nat list \<Rightarrow> fl \<Rightarrow> exn + fl list" where
  "front_velocity sgndDist_k sgndDist_old EltsTipNew timeStep =
     ebind (np_take sgndDist_k EltsTipNew) (\<lambda>a.
     ebind (np_take sgndDist_old EltsTipNew) (\<lambda>b.
     Inr (map (\<lambda>x. fl_div (fl_neg x) timeStep) (map2 fl_sub a b))))"

text \<open>
  The rounding of the filling fraction,
  \<open>FillFrac_k[np.logical_and(FillFrac_k > 1.0, FillFrac_k < 1 + tol)] = 1.0\<close>, and the
  test that follows it, \<open>(FillFrac_k > 1.0).any() or
  (FillFrac_k < 0.0 - np.finfo(float).eps).any()\<close>. The machine epsilon is \<open>2^-52\<close>.
\<close>

definition float_eps :: real where
  "float_eps = 1 / 2 ^ 52"

definition clamp_fill :: "real \<Rightarrow> fl list \<Rightarrow> fl list" where
  "clamp_fill tol FillFrac_k =
     map (\<lambda>F. if fl_gt F (Fin 1) \<and> fl_lt F (Fin (1 + tol)) then Fin 1 else F) FillFrac_k"

definition fill_invalid :: "fl list \<Rightarrow> bool" where
  "fill_invalid FillFrac_k =
     ((\<exists>F \<in> set FillFrac_k. fl_gt F (Fin 1))
      \<or> (\<exists>F \<in> set FillFrac_k. fl_lt F (Fin (0 - float_eps))))"

text \<open>
  \<open>partlyFilledTip = np.arange(EltsTipNew.shape[0])[np.in1d(EltsTipNew, EltTip_k)]\<close>:
  the positions of the new tip cells that are still tip cells after the update.
\<close>

definition partlyFilled :: "nat list \<Rightarrow> nat list \<Rightarrow> nat list" where
  "partlyFilled EltsTipNew EltTip_k =
     filter (\<lambda>i. EltsTipNew ! i \<in> set EltTip_k) [0..<length EltsTipNew]"

text \<open>
  \<open>stagnant = abs(1 - sgndDist_k[EltsTipNew] / Fr_lstTmStp.sgndDist[EltsTipNew]) < 1e-5\<close>
\<close>

definition stagnant_cells :: "fl list \<Rightarrow> fl list \<Rightarrow> nat list \<Rightarrow> exn + bool list" where
  "stagnant_cells sgndDist_k sgndDist_old EltsTipNew =
     ebind (np_take sgndDist_k EltsTipNew) (\<lambda>a.
     ebind (np_take sgndDist_old EltsTipNew) (\<lambda>b.
     Inr (map2 (\<lambda>x y. fl_lt (fl_abs (fl_sub (Fin 1) (fl_div x y))) (Fin (1 / 10 ^ 5))) a b)))"

text \<open>
  The region of the fast marching method around the front of the last time step, for a
  band of \<open>c\<close> times the diagonal of a cell: the cells outwards and the cells inwards.
\<close>

definition fmm_regions :: "fracture \<Rightarrow> fl \<Rightarrow> nat list \<times> nat list" where
  "fmm_regions Fr c =
     (let M = fr_mesh Fr;
          d = fl_sqrt (fl_add (fl_mul (hx M) (hx M)) (fl_mul (hy M) (hy M)));
          front_region = filter (\<lambda>i. fl_lt (fl_abs (fr_sgndDist Fr ! i)) (fl_mul c d))
                           [0..<length (fr_sgndDist Fr)];
          pstv_region = filter (\<lambda>i. fl_ge (fr_sgndDist Fr ! (front_region ! i)) (fl_neg d))
                           [0..<length front_region];
          ngtv_region = filter (\<lambda>i. fl_lt (fr_sgndDist Fr ! (front_region ! i)) (Fin 0))
                           [0..<length front_region]
      in (map (\<lambda>i. front_region ! i) pstv_region, map (\<lambda>i. front_region ! i) ngtv_region))"

subsection \<open>injection_extended_footprint\<close>

text \<open>
  The tip inversion at the head of the toughness loop (lines 268-295): the signed
  distance of the ribbon cells before the pass, and the new signed distance, which is
  \<open>1e10\<close> but in the ribbon cells, where it is minus the inverted distance. A NaN there
  is status 7. Nothing compares the new value with the one of the last time step.
\<close>

definition visc_inversion ::
  "'i env \<Rightarrow> fl list \<Rightarrow> fracture \<Rightarrow> fl \<Rightarrow> mat_prop \<Rightarrow> fl list
     \<Rightarrow> exn + (nat + (fl list \<times> fl list))" where
  "visc_inversion E w_k Fr timeStep MP sgndDist_k =
     sbind (lift (np_take sgndDist_k (fr_EltRibbon Fr))) (\<lambda>l_m1.
     sbind (lift (if anisotropic MP
                  then ebind (toughness_at_tip_CellCenter E (fr_EltRibbon Fr) (fr_mesh Fr)
                                sgndDist_k) (\<lambda>K. Inr (Some K))
                  else Inr None)) (\<lambda>Kprime_k.
     sbind (lift (TipAsymInversion E w_k Fr timeStep Kprime_k)) (\<lambda>inv.
     sbind (lift (np_put (replicate (NumberOfElts (fr_mesh Fr)) (Fin (10 ^ 10)))
                    (fr_EltRibbon Fr) (map fl_neg inv))) (\<lambda>s1.
     sbind (lift (np_take s1 (fr_EltRibbon Fr))) (\<lambda>sr.
     if \<exists>x \<in> set sr. isnan x then Inr (Inl 7) else Inr (Inr (l_m1, s1)))))))"

text \<open>
  One pass through the toughness loop (lines 268-331): the new signed distance after
  the fast marching method, and whether the loop is left by \<open>break\<close>.
\<close>

definition visc_toughness_body ::
  "'i env \<Rightarrow> fl list \<Rightarrow> fracture \<Rightarrow> fl \<Rightarrow> mat_prop \<Rightarrow> sim_prop \<Rightarrow> fl list
     \<Rightarrow> exn + (nat + (fl list \<times> bool))" where
  "visc_toughness_body E w_k Fr timeStep MP SP sgndDist_k =
     sbind (visc_inversion E w_k Fr timeStep MP sgndDist_k) (\<lambda>(l_m1, s1).
     let (pstv, ngtv) = fmm_regions Fr (Fin 2) in
     sbind (lift (SolveFMM E s1 (fr_EltRibbon Fr) (fr_EltChannel Fr) (fr_mesh Fr) pstv ngtv))
       (\<lambda>s2.
     sbind (lift (np_take s2 (fr_EltRibbon Fr))) (\<lambda>sr2.
     sbind (lift (np_bin fl_div l_m1 sr2)) (\<lambda>q.
     let nrm = np_norm (map (\<lambda>x. fl_sub (Fin 1) (fl_abs x)) q) in
     if fl_lt nrm (toleranceToughness SP) then Inr (Inr (s2, True))
     else if \<not> KprimeFunc_given MP then Inr (Inr (s2, True))
     else Inr (Inr (s2, False))))))"

text \<open>
  The loop \<open>while itr < sim_parameters.maxToughnessItr\<close>: it ends with the counter and
  the signed distance, and the test \<open>itr == maxToughnessItr\<close> follows it (333-335).
\<close>

function visc_toughness_loop ::
  "'i env \<Rightarrow> fl list \<Rightarrow> fracture \<Rightarrow> fl \<Rightarrow> mat_prop \<Rightarrow> sim_prop \<Rightarrow> nat \<Rightarrow> fl list
     \<Rightarrow> exn + (nat + (nat \<times> fl list))" where
  "visc_toughness_loop E w_k Fr timeStep MP SP itr sgndDist_k =
     (if itr < maxToughnessItr SP then
        (case visc_toughness_body E w_k Fr timeStep MP SP sgndDist_k of
           Inl e \<Rightarrow> Inl e
         | Inr (Inl s) \<Rightarrow> Inr (Inl s)
         | Inr (Inr (sgndDist_k', brk)) \<Rightarrow>
             if brk then Inr (Inr (itr, sgndDist_k'))
             else visc_toughness_loop E w_k Fr timeStep MP SP (itr + 1) sgndDist_k')
      else Inr (Inr (itr, sgndDist_k)))"
  by pat_completeness auto
termination
  by (relation "measure (\<lambda>(E, w_k, Fr, timeStep, MP, SP, itr, sgndDist_k).
        maxToughnessItr SP - itr)") auto

definition visc_toughness ::
  "'i env \<Rightarrow> fl list \<Rightarrow> fracture \<Rightarrow> fl \<Rightarrow> mat_prop \<Rightarrow> sim_prop \<Rightarrow> exn + (nat + fl list)" where
  "visc_toughness E w_k Fr timeStep MP SP =
     sbind (visc_toughness_loop E w_k Fr timeStep MP SP 0 (fr_sgndDist Fr))
       (\<lambda>(itr, sgndDist_k).
          if itr = maxToughnessItr SP then Inr (Inl 10) else Inr (Inr sgndDist_k))"

text \<open>
  Lines 339-354: the front is reconstructed and checked. At the end of the grid this
  function plots the fracture and raises \<open>SystemExit\<close>.
\<close>

definition visc_front ::
  "'i env \<Rightarrow> fracture \<Rightarrow> fl list \<Rightarrow> exn + (nat + (nat list \<times> fl list \<times> fl list))" where
  "visc_front E Fr sgndDist_k =
     sbind (lift (reconstruct_front E sgndDist_k (fr_EltChannel Fr) (fr_mesh Fr)))
       (\<lambda>(EltsTipNew, l_k, alpha_k, CellStatus).
     sbind (lift (front_invalid alpha_k l_k)) (\<lambda>bad.
     if bad then Inr (Inl 3) else
     sbind (lift (reached_end (fr_mesh Fr) EltsTipNew)) (\<lambda>at_end.
     if at_end then Inl SystemExit
     else Inr (Inr (EltsTipNew, l_k, alpha_k)))))"

text \<open>
  Lines 357-382: the velocity of the front and the filling fractions of the new tip
  cells, rounded within \<open>1e-6\<close> above one, and their check (status 9).
\<close>

definition visc_fill ::
  "'i env \<Rightarrow> fracture \<Rightarrow> fl \<Rightarrow> fl list \<Rightarrow> nat list \<Rightarrow> fl list \<Rightarrow> fl list
     \<Rightarrow> exn + (nat + (nat list \<times> fl list \<times> fl list))" where
  "visc_fill E Fr timeStep sgndDist_k EltsTipNew l_k alpha_k =
     sbind (lift (make_InCrack (NumberOfElts (fr_mesh Fr)) (fr_EltChannel Fr) EltsTipNew))
       (\<lambda>InCrack_k.
     sbind (lift (front_velocity sgndDist_k (fr_sgndDist Fr) EltsTipNew timeStep)) (\<lambda>Vel_k.
     sbind (lift (VolumeIntegral E EltsTipNew alpha_k l_k (fr_mesh Fr) Asym_A
                    (fr_muPrime Fr) Vel_k None)) (\<lambda>vol.
     let FillFrac_k = clamp_fill (1 / 10 ^ 6)
                        (map (\<lambda>x. fl_div x (EltArea (fr_mesh Fr))) vol)
     in if fill_invalid FillFrac_k then Inr (Inl 9)
        else Inr (Inr (InCrack_k, Vel_k, FillFrac_k)))))"

text \<open>
  Lines 412-464: the average width of the tip cells from the tip asymptote; the cells
  with a stagnant front take the stress intensity factor (status 8 when it is NaN), and
  a negative tip width is status 4.
\<close>

definition visc_tip_width ::
  "'i env \<Rightarrow> fl list \<Rightarrow> fracture \<Rightarrow> sim_prop \<Rightarrow> fl list \<Rightarrow> nat list \<Rightarrow> fl list \<Rightarrow> fl list
     \<Rightarrow> fl list \<Rightarrow> nat list \<Rightarrow> exn + (nat + fl list)" where
  "visc_tip_width E w_k Fr SP sgndDist_k EltsTipNew l_k alpha_k Vel_k EltRibbon_k =
     sbind (lift (stagnant_cells sgndDist_k (fr_sgndDist Fr) EltsTipNew)) (\<lambda>stagnant.
     sbind (if \<exists>b \<in> set stagnant. b then
              sbind (lift (StressIntensityFactor E w_k sgndDist_k EltsTipNew EltRibbon_k
                             stagnant (fr_mesh Fr))) (\<lambda>KIPrime.
              if \<exists>x \<in> set KIPrime. isnan x then Inr (Inl 8)
              else lift (VolumeIntegral E EltsTipNew alpha_k l_k (fr_mesh Fr)
                           (tipAsymptote SP) (fr_muPrime Fr) Vel_k (Some (stagnant, KIPrime))))
            else lift (VolumeIntegral E EltsTipNew alpha_k l_k (fr_mesh Fr) (tipAsymptote SP)
                         (fr_muPrime Fr) Vel_k None)) (\<lambda>vol.
     let wTip = map (\<lambda>x. fl_div x (EltArea (fr_mesh Fr))) vol
     in if \<exists>x \<in> set wTip. fl_lt x (Fin 0) then Inr (Inl 4) else Inr (Inr wTip)))"

text \<open>What a trial front consists of, once the tip widths are known.\<close>

record trial =
  t_sgndDist :: "fl list"
  t_EltsTipNew :: "nat list"
  t_l :: "fl list"
  t_alpha :: "fl list"
  t_InCrack :: "nat list"
  t_Vel :: "fl list"
  t_FillFrac :: "fl list"
  t_EltChannel :: "nat list"
  t_EltTip :: "nat list"
  t_EltCrack :: "nat list"
  t_EltRibbon :: "nat list"
  t_zrVertx :: "nat list"
  t_wTip :: "fl list"

text \<open>Lines 262-464: everything before the elastohydrodynamic system is solved.\<close>

definition visc_trial ::
  "'i env \<Rightarrow> fl list \<Rightarrow> fracture \<Rightarrow> fl \<Rightarrow> mat_prop \<Rightarrow> sim_prop \<Rightarrow> exn + (nat + trial)" where
  "visc_trial E w_k Fr timeStep MP SP =
     sbind (visc_toughness E w_k Fr timeStep MP SP) (\<lambda>sgndDist_k.
     sbind (visc_front E Fr sgndDist_k) (\<lambda>(EltsTipNew, l_k, alpha_k).
     sbind (visc_fill E Fr timeStep sgndDist_k EltsTipNew l_k alpha_k)
       (\<lambda>(InCrack_k, Vel_k, FillFrac_k).
     sbind (lift (UpdateLists E (fr_EltChannel Fr) EltsTipNew FillFrac_k sgndDist_k
                    (fr_mesh Fr)))
       (\<lambda>(EltChannel_k, EltTip_k, EltCrack_k, EltRibbon_k, zrVertx_k, CellStatus_k).
     sbind (visc_tip_width E w_k Fr SP sgndDist_k EltsTipNew l_k alpha_k Vel_k EltRibbon_k)
       (\<lambda>wTip.
     Inr (Inr \<lparr>t_sgndDist = sgndDist_k, t_EltsTipNew = EltsTipNew, t_l = l_k,
               t_alpha = alpha_k, t_InCrack = InCrack_k, t_Vel = Vel_k,
               t_FillFrac = FillFrac_k, t_EltChannel = EltChannel_k, t_EltTip = EltTip_k,
               t_EltCrack = EltCrack_k, t_EltRibbon = EltRibbon_k, t_zrVertx = zrVertx_k,
               t_wTip = wTip\<rparr>))))))"

text \<open>
  The fields of the new fracture that both branches set in the same way (the lists of
  cells, the filling fractions, angles and lengths of the cells that are partly filled).
\<close>

definition set_front :: "fracture \<Rightarrow> trial \<Rightarrow> exn + fracture" where
  "set_front Fr T =
     (let partlyFilledTip = partlyFilled (t_EltsTipNew T) (t_EltTip T) in
      ebind (np_take (t_FillFrac T) partlyFilledTip) (\<lambda>FillF'.
      ebind (np_take (t_alpha T) partlyFilledTip) (\<lambda>alpha'.
      ebind (np_take (t_l T) partlyFilledTip) (\<lambda>l'.
      Inr (Fr\<lparr>fr_FillF := FillF', fr_EltChannel := t_EltChannel T, fr_EltTip := t_EltTip T,
               fr_EltCrack := t_EltCrack T, fr_EltRibbon := t_EltRibbon T,
               fr_ZeroVertex := t_zrVertx T, fr_alpha := alpha', fr_l := l',
               fr_InCrack := t_InCrack T\<rparr>)))))"

text \<open>
  Lines 466-567: the system is solved by \<open>Picard_Newton\<close> and the new fracture is built.
  A NaN among the new widths is status 5; a negative width is only printed here.
\<close>

definition visc_solve ::
  "'i env \<Rightarrow> fracture \<Rightarrow> mat \<Rightarrow> fl \<Rightarrow> fl list \<Rightarrow> sim_prop \<Rightarrow> trial
     \<Rightarrow> exn + (nat \<times> fracture option \<times> printed option)" where
  "visc_solve E Fr C timeStep Qin SP T =
     (let nCh = length (fr_EltChannel Fr); nTip = length (t_EltsTipNew T);
          nCrack = length (fr_EltCrack Fr);
          q = fl_mul (fl_div (fl_mul timeStep (fl_sum Qin)) (Fin (real nCrack))) (Fin 1)
      in
      ebind (np_put (replicate (nCh + nTip) (Fin 0)) [0..<nCh] (replicate nCrack q)) (\<lambda>guess.
      ebind (np_take (fr_w Fr) (fr_EltChannel Fr)) (\<lambda>wch.
      ebind (np_take guess [0..<nCh]) (\<lambda>g.
      ebind (np_put (fr_w Fr) (fr_EltChannel Fr) (map2 fl_add wch g)) (\<lambda>wg1.
      ebind (np_put wg1 (t_EltsTipNew T) (t_wTip T)) (\<lambda>wguess.
      ebind (velocity E wguess (t_EltCrack T) (t_InCrack T) C) (\<lambda>vk.
      ebind (np_fill guess (map (\<lambda>i. nCh + i) [0..<nTip]) (Fin (10 ^ 5))) (\<lambda>typValue.
      ebind (Picard_Newton
               (extendedFP_funs E Fr (t_EltsTipNew T) (t_wTip T) (t_EltCrack T) (t_InCrack T)
                  C timeStep Qin)
               (numpy_strict E) guess typValue vk (toleranceEHL SP) (maxSolverItr SP)
               (Fin 1) 1000) (\<lambda>(sol, vel, msg).
      ebind (np_take sol [0..<nCh]) (\<lambda>sch.
      ebind (np_put (fr_w Fr) (fr_EltChannel Fr) (map2 fl_add wch sch)) (\<lambda>w1.
      ebind (np_put w1 (t_EltsTipNew T) (t_wTip T)) (\<lambda>w2.
      if \<exists>x \<in> set w2. isnan x then Inr (5, None, Some msg) else
      ebind (set_front (Fr\<lparr>fr_time := fl_add (fr_time Fr) timeStep, fr_w := w2\<rparr>) T) (\<lambda>Fr1.
      ebind (np_ix C (t_EltCrack T) (t_EltCrack T)) (\<lambda>Ccc.
      ebind (np_take w2 (t_EltCrack T)) (\<lambda>wcr.
      ebind (np_dot Ccc (length (t_EltCrack T)) wcr) (\<lambda>pcr.
      ebind (np_put (fr_p Fr) (t_EltCrack T) pcr) (\<lambda>p'.
      ebind (np_take (t_Vel T) (partlyFilled (t_EltsTipNew T) (t_EltTip T))) (\<lambda>v'.
      ebind (process_fracture_front E
               (Fr1\<lparr>fr_p := p', fr_sgndDist := t_sgndDist T, fr_v := Some v'\<rparr>)) (\<lambda>Fr2.
      Inr (1, Some (Fr2\<lparr>fr_FractureVolume :=
                           fl_mul (fl_sum (fr_w Fr2)) (EltArea (fr_mesh Fr2))\<rparr>),
           Some msg))))))))))))))))))))"

definition injection_extended_footprint ::
  "'i env \<Rightarrow> fl list \<Rightarrow> fracture \<Rightarrow> mat \<Rightarrow> fl \<Rightarrow> fl list \<Rightarrow> mat_prop \<Rightarrow> sim_prop
     \<Rightarrow> exn + (nat \<times> fracture option \<times> printed option)" where
  "injection_extended_footprint E w_k Fr_lstTmStp C timeStep Qin MP SP =
     (case visc_trial E w_k Fr_lstTmStp timeStep MP SP of
        Inl e \<Rightarrow> Inl e
      | Inr (Inl exitstatus) \<Rightarrow> Inr (exitstatus, None, None)
      | Inr (Inr T) \<Rightarrow> visc_solve E Fr_lstTmStp C timeStep Qin SP T)"

subsection \<open>attempt_time_step_viscousFluid\<close>

text \<open>
  The injection schedule: the times (first row of \<open>injectionRate\<close>), the rates (second
  row) and the source cells.
\<close>

record inj_prop =
  injectionRate_times :: "fl list"
  injectionRate_rates :: "fl list"
  source_location :: "nat list"

text \<open>
  \<open>indxCurTime = max(np.where(Frac.time >= injectionRate[0, :])[0])\<close> and the rate
  at that index; \<open>max\<close> of an empty sequence raises \<open>ValueError\<close>.
\<close>

definition current_rate :: "inj_prop \<Rightarrow> fl \<Rightarrow> exn + fl" where
  "current_rate IP t =
     (let idx = filter (\<lambda>i. fl_ge t (injectionRate_times IP ! i))
                  [0..<length (injectionRate_times IP)]
      in if idx = [] then Inl ValueError
         else if \<not> last idx < length (injectionRate_rates IP) then Inl IndexError
         else Inr (injectionRate_rates IP ! last idx))"

text \<open>
  \<open>abs((sum(a) - sum(b)) / len(a))\<close>, the change of the filling fractions of the tip
  cells per tip cell. The sum of an empty array is the integer 0, so two empty arrays
  give a division of integers by zero.
\<close>

definition front_norm :: "fl list \<Rightarrow> fl list \<Rightarrow> exn + fl" where
  "front_norm a b =
     (if a = [] \<and> b = [] then Inl ZeroDivisionError
      else Inr (fl_abs (fl_div (fl_sub (fl_sum a) (fl_sum b)) (Fin (real (length a))))))"

text \<open>
  The fracture front loop (lines 87-116). It runs until the norm is at most the
  tolerance, a call fails, or the counter equals \<open>maxFrontItr\<close>; with
  \<open>maxFrontItr = 0\<close> nothing bounds it, so the loop is a partial function.
\<close>

partial_function (option) visc_front_loop ::
  "'i env \<Rightarrow> fracture \<Rightarrow> mat \<Rightarrow> fl \<Rightarrow> fl list \<Rightarrow> mat_prop \<Rightarrow> sim_prop \<Rightarrow> fl \<Rightarrow> nat
     \<Rightarrow> fracture \<Rightarrow> fl list \<Rightarrow> nat \<Rightarrow> (exn + (nat \<times> fracture option)) option" where
  "visc_front_loop E Frac C TimeStep Qin MP SP nrm k Fr_k w_k exitstatus =
     (if fl_gt nrm (tolFractFront SP) then
        (case injection_extended_footprint E w_k Frac C TimeStep Qin MP SP of
           Inl e \<Rightarrow> Some (Inl e)
         | Inr (exitstatus', res, msg) \<Rightarrow>
             if exitstatus' \<noteq> 1 then Some (Inr (exitstatus', None))
             else
               (case res of
                  None \<Rightarrow> Some (Inl AttributeError)
                | Some Fr_k' \<Rightarrow>
                    (case front_norm (fr_FillF Fr_k') (fr_FillF Fr_k) of
                       Inl e \<Rightarrow> Some (Inl e)
                     | Inr nrm' \<Rightarrow>
                         if k + 1 = maxFrontItr SP then Some (Inr (6, None))
                         else visc_front_loop E Frac C TimeStep Qin MP SP nrm' (k + 1) Fr_k'
                                (fr_w Fr_k') exitstatus')))
      else Some (Inr (exitstatus, Some Fr_k)))"

text \<open>
  \<open>attempt_time_step_viscousFluid\<close> (lines 53-116): the injection into the unchanged
  footprint first; a status other than 1 is returned as it is.
\<close>

definition attempt_time_step_viscousFluid ::
  "'i env \<Rightarrow> fracture \<Rightarrow> mat \<Rightarrow> mat_prop \<Rightarrow> sim_prop \<Rightarrow> inj_prop \<Rightarrow> fl
     \<Rightarrow> (exn + (nat \<times> fracture option)) option" where
  "attempt_time_step_viscousFluid E Frac C MP SP IP TimeStep =
     (case current_rate IP (fr_time Frac) of
        Inl e \<Rightarrow> Some (Inl e)
      | Inr CurrentRate \<Rightarrow>
     (case np_fill (replicate (NumberOfElts (fr_mesh Frac)) (Fin 0)) (source_location IP)
             CurrentRate of
        Inl e \<Rightarrow> Some (Inl e)
      | Inr Qin \<Rightarrow>
     (case injection_same_footprint E Frac C TimeStep Qin SP of
        Inl e \<Rightarrow> Some (Inl e)
      | Inr (exitstatus, res, C', msg) \<Rightarrow>
          if exitstatus \<noteq> 1 then Some (Inr (exitstatus, None))
          else
            (case res of
               None \<Rightarrow> Some (Inl AttributeError)
             | Some w_k \<Rightarrow>
                 visc_front_loop E Frac C' TimeStep Qin MP SP (Fin 10) 0 Frac w_k
                   exitstatus))))"

section \<open>TimeSteppingVolumeControl\<close>

subsection \<open>injection_same_footprint_volumeControl\<close>

text \<open>
  Lines 237-293. The linear system is solved directly; \<open>np.linalg.solve\<close> is not inside
  a \<open>try\<close> here, so a singular matrix is an exception. The result carries the elasticity
  matrix as the call leaves it.
\<close>

definition injection_same_footprint_volumeControl ::
  "'i env \<Rightarrow> fracture \<Rightarrow> mat \<Rightarrow> fl \<Rightarrow> fl \<Rightarrow> exn + (nat \<times> fl list option \<times> mat)" where
  "injection_same_footprint_volumeControl E Fr_lstTmStp C timeStep Q =
     ebind (save_tip_block C (fr_EltTip Fr_lstTmStp)) (\<lambda>C_EltTip.
     ebind (apply_tip_correction C (fr_EltTip Fr_lstTmStp) (fr_FillF Fr_lstTmStp)) (\<lambda>C1.
     ebind (MakeEquationSystem_volumeControl_sameFP E (fr_w Fr_lstTmStp)
              (fr_EltCrack Fr_lstTmStp) C1 timeStep Q (EltArea (fr_mesh Fr_lstTmStp)))
       (\<lambda>(A, b).
     ebind (linalg_solve E A b) (\<lambda>sol.
     ebind (np_take (fr_w Fr_lstTmStp) (fr_EltCrack Fr_lstTmStp)) (\<lambda>wc.
     ebind (np_take sol [0..<length (fr_EltCrack Fr_lstTmStp)]) (\<lambda>sc.
     ebind (np_put (fr_w Fr_lstTmStp) (fr_EltCrack Fr_lstTmStp) (map2 fl_add wc sc)) (\<lambda>w_k.
     ebind (restore_tip_block C1 (fr_EltTip Fr_lstTmStp) C_EltTip) (\<lambda>C2.
     if \<exists>x \<in> set w_k. isnan x then Inr (5, None, C2)
     else Inr (1, Some w_k, C2)))))))))"

subsection \<open>The toughness loop of the volume-control branch\<close>

text \<open>
  The tip inversion inside the toughness loop, as it stands in
  \<open>injection_extended_footprint_volumeControl\<close> (350-392) and once more in
  \<open>time_step_explicit_front_volumeControl\<close> (947-986): the relaxed toughness (status
  11), the inversion of the tip asymptote (status 7), and the minimum with the signed
  distance of the last time step.
\<close>

definition vc_inversion ::
  "'i env \<Rightarrow> fl list \<Rightarrow> fracture \<Rightarrow> fl \<Rightarrow> mat_prop \<Rightarrow> fl list \<Rightarrow> fl list option
     \<Rightarrow> exn + (nat + (fl list \<times> fl list option))" where
  "vc_inversion E w_k Fr timeStep MP sgndDist_k Kprime_k =
     sbind (if K1cFunc_given MP then
              sbind (lift (projection_from_ribbon E (fr_EltRibbon Fr) (fr_EltChannel Fr)
                             (fr_mesh Fr) sgndDist_k)) (\<lambda>alpha_ribbon.
              if \<exists>x \<in> set alpha_ribbon. isnan x then Inr (Inl 11) else
              sbind (lift (get_toughness_from_cellCenter E alpha_ribbon sgndDist_k
                             (fr_EltRibbon Fr) (fr_mesh Fr))) (\<lambda>g.
              (case Kprime_k of
                 None \<Rightarrow> Inl UnboundLocalError
               | Some K \<Rightarrow>
                   sbind (lift (np_bin fl_add (map (fl_mul (Fin (3 / 10))) K)
                                  (map (\<lambda>x. fl_mul (fl_mul (Fin (7 / 10)) x)
                                              (Fin (sqrt (32 / pi)))) g))) (\<lambda>K'.
                   if \<exists>x \<in> set K'. isnan x then Inr (Inl 11) else Inr (Inr (Some K'))))))
            else Inr (Inr None)) (\<lambda>Kprime_k'.
     sbind (lift (TipAsymInversion E w_k Fr timeStep Kprime_k')) (\<lambda>inv.
     sbind (lift (np_put (replicate (NumberOfElts (fr_mesh Fr)) (Fin (10 ^ 10)))
                    (fr_EltRibbon Fr) (map fl_neg inv))) (\<lambda>s0.
     sbind (lift (np_take s0 (fr_EltRibbon Fr))) (\<lambda>sr.
     if \<exists>x \<in> set sr. isnan x then Inr (Inl 7) else
     sbind (lift (np_take (fr_sgndDist Fr) (fr_EltRibbon Fr))) (\<lambda>old.
     sbind (lift (np_put s0 (fr_EltRibbon Fr) (map2 np_minimum sr old))) (\<lambda>s1.
     Inr (Inr (s1, Kprime_k'))))))))"

text \<open>
  One pass through the loop of \<open>injection_extended_footprint_volumeControl\<close>
  (348-435): the fast marching method, status 2 when a cell of the outward region was
  not reached, and the test of the toughness.
\<close>

definition vc_toughness_body ::
  "'i env \<Rightarrow> fl list \<Rightarrow> fracture \<Rightarrow> fl \<Rightarrow> mat_prop \<Rightarrow> sim_prop \<Rightarrow> fl list
     \<Rightarrow> fl list option \<Rightarrow> fl list option
     \<Rightarrow> exn + (nat + (fl list \<times> fl list option \<times> fl list option \<times> bool))" where
  "vc_toughness_body E w_k Fr timeStep MP SP sgndDist_k Kprime_k Kprime_km1 =
     sbind (vc_inversion E w_k Fr timeStep MP sgndDist_k Kprime_k) (\<lambda>(s1, Kp).
     let (pstv, ngtv) = fmm_regions Fr (fl_mul (tmStpPrefactor SP) (Fin (666 / 100))) in
     sbind (lift (SolveFMM E s1 (fr_EltRibbon Fr) (fr_EltChannel Fr) (fr_mesh Fr) pstv ngtv))
       (\<lambda>s2.
     sbind (lift (np_take s2 pstv)) (\<lambda>sp.
     sbind (lift (py_max sp)) (\<lambda>m.
     if fl_eq m (Fin (10 ^ 10)) \<or> fl_eq m (Fin (10 ^ 10)) then Inr (Inl 2)
     else if \<not> K1cFunc_given MP then Inr (Inr (s2, Kp, Kprime_km1, True))
     else
       (case (Kp, Kprime_km1) of
          (Some K, Some Km1) \<Rightarrow>
            sbind (lift (np_bin fl_div K Km1)) (\<lambda>q.
            let nrm = fl_div (np_norm (map (\<lambda>x. fl_sub (Fin 1) (fl_abs x)) q))
                             (Fin (sqrt (real (length K))))
            in if fl_lt nrm (toleranceToughness SP) then Inr (Inr (s2, Kp, Kprime_km1, True))
               else Inr (Inr (s2, Kp, Some K, False)))
        | _ \<Rightarrow> Inl UnboundLocalError)))))"

function vc_toughness_loop ::
  "'i env \<Rightarrow> fl list \<Rightarrow> fracture \<Rightarrow> fl \<Rightarrow> mat_prop \<Rightarrow> sim_prop \<Rightarrow> nat \<Rightarrow> fl list
     \<Rightarrow> fl list option \<Rightarrow> fl list option \<Rightarrow> exn + (nat + (nat \<times> fl list))" where
  "vc_toughness_loop E w_k Fr timeStep MP SP itr sgndDist_k Kprime_k Kprime_km1 =
     (if itr < maxToughnessItr SP then
        (case vc_toughness_body E w_k Fr timeStep MP SP sgndDist_k Kprime_k Kprime_km1 of
           Inl e \<Rightarrow> Inl e
         | Inr (Inl s) \<Rightarrow> Inr (Inl s)
         | Inr (Inr (sgndDist_k', Kprime_k', Kprime_km1', brk)) \<Rightarrow>
             if brk then Inr (Inr (itr, sgndDist_k'))
             else vc_toughness_loop E w_k Fr timeStep MP SP (itr + 1) sgndDist_k' Kprime_k'
                    Kprime_km1')
      else Inr (Inr (itr, sgndDist_k)))"
  by pat_completeness auto
termination
  by (relation "measure (\<lambda>(E, w_k, Fr, timeStep, MP, SP, itr, sgndDist_k, Kprime_k,
        Kprime_km1). maxToughnessItr SP - itr)") auto

text \<open>
  Lines 330-439: the toughness is initialised when a toughness function is given, the
  loop starts from \<open>itr = 1\<close>, and the test \<open>itr == maxToughnessItr\<close> after it is
  commented out: the function goes on with the signed distance the loop ended with.
\<close>

definition vc_toughness ::
  "'i env \<Rightarrow> fl list \<Rightarrow> fracture \<Rightarrow> fl \<Rightarrow> mat_prop \<Rightarrow> sim_prop
     \<Rightarrow> exn + (nat + (nat \<times> fl list))" where
  "vc_toughness E w_k Fr timeStep MP SP =
     sbind (if K1cFunc_given MP then
              sbind (lift (projection_from_ribbon E (fr_EltRibbon Fr) (fr_EltChannel Fr)
                             (fr_mesh Fr) (fr_sgndDist Fr))) (\<lambda>alpha_ribbon.
              sbind (lift (get_toughness_from_cellCenter E alpha_ribbon (fr_sgndDist Fr)
                             (fr_EltRibbon Fr) (fr_mesh Fr))) (\<lambda>g.
              let Kprime_k = map (fl_mul (Fin (sqrt (32 / pi)))) g
              in Inr (Inr (Some Kprime_k, Some (map (fl_mul (Fin 0)) Kprime_k)))))
            else Inr (Inr (None, None))) (\<lambda>(Kprime_k, Kprime_km1).
     vc_toughness_loop E w_k Fr timeStep MP SP 1 (fr_sgndDist Fr) Kprime_k Kprime_km1)"

subsection \<open>injection_extended_footprint_volumeControl\<close>

text \<open>
  Lines 443-458: the front is reconstructed and checked; at the end of the grid the
  function returns status 12.
\<close>

definition vc_front ::
  "'i env \<Rightarrow> fracture \<Rightarrow> fl list \<Rightarrow> exn + (nat + (nat list \<times> fl list \<times> fl list))" where
  "vc_front E Fr sgndDist_k =
     sbind (lift (reconstruct_front E sgndDist_k (fr_EltChannel Fr) (fr_mesh Fr)))
       (\<lambda>(EltsTipNew, l_k, alpha_k, CellStatus).
     sbind (lift (front_invalid alpha_k l_k)) (\<lambda>bad.
     if bad then Inr (Inl 3) else
     sbind (lift (reached_end (fr_mesh Fr) EltsTipNew)) (\<lambda>at_end.
     if at_end then Inr (Inl 12)
     else Inr (Inr (EltsTipNew, l_k, alpha_k)))))"

text \<open>
  Lines 463-485: the filling fractions, rounded within \<open>1e-4\<close> above one, and their
  check (status 9).
\<close>

definition vc_fill ::
  "'i env \<Rightarrow> fracture \<Rightarrow> fl \<Rightarrow> fl list \<Rightarrow> nat list \<Rightarrow> fl list \<Rightarrow> fl list
     \<Rightarrow> exn + (nat + (nat list \<times> fl list \<times> fl list))" where
  "vc_fill E Fr timeStep sgndDist_k EltsTipNew l_k alpha_k =
     sbind (lift (make_InCrack (NumberOfElts (fr_mesh Fr)) (fr_EltChannel Fr) EltsTipNew))
       (\<lambda>InCrack_k.
     sbind (lift (front_velocity sgndDist_k (fr_sgndDist Fr) EltsTipNew timeStep)) (\<lambda>Vel_k.
     sbind (lift (Integral_over_cell E EltsTipNew alpha_k l_k (fr_mesh Fr) Asym_A
                    None None None)) (\<lambda>vol.
     let FillFrac_k = clamp_fill (1 / 10 ^ 4)
                        (map (\<lambda>x. fl_div x (EltArea (fr_mesh Fr))) vol)
     in if fill_invalid FillFrac_k then Inr (Inl 9)
        else Inr (Inr (InCrack_k, Vel_k, FillFrac_k)))))"

text \<open>Lines 507-577: the toughness at the tip and the width of the tip cells.\<close>

definition vc_tip_width ::
  "'i env \<Rightarrow> fl list \<Rightarrow> fracture \<Rightarrow> mat_prop \<Rightarrow> sim_prop \<Rightarrow> fl list \<Rightarrow> nat list \<Rightarrow> fl list
     \<Rightarrow> fl list \<Rightarrow> fl list \<Rightarrow> nat list \<Rightarrow> exn + (nat + fl list)" where
  "vc_tip_width E w_k Fr MP SP sgndDist_k EltsTipNew l_k alpha_k Vel_k EltRibbon_k =
     sbind (lift (if K1cFunc_given MP then
                    ebind (find_zero_vertex E EltsTipNew sgndDist_k (fr_mesh Fr))
                      (\<lambda>zrVrtx_newTip.
                    ebind (get_toughness_from_zeroVertex E EltsTipNew (fr_mesh Fr) alpha_k
                             l_k zrVrtx_newTip) (\<lambda>g.
                    Inr (Some (map (fl_mul (Fin (sqrt (32 / pi)))) g))))
                  else Inr None)) (\<lambda>Kprime_tip.
     sbind (lift (stagnant_cells sgndDist_k (fr_sgndDist Fr) EltsTipNew)) (\<lambda>stagnant.
     sbind (if \<exists>b \<in> set stagnant. b then
              sbind (lift (StressIntensityFactor E w_k sgndDist_k EltsTipNew EltRibbon_k
                             stagnant (fr_mesh Fr))) (\<lambda>KIPrime.
              if \<exists>x \<in> set KIPrime. isnan x then Inr (Inl 8)
              else lift (Integral_over_cell E EltsTipNew alpha_k l_k (fr_mesh Fr)
                           (tipAsymptote SP) (Some Vel_k) Kprime_tip
                           (Some (stagnant, KIPrime))))
            else lift (Integral_over_cell E EltsTipNew alpha_k l_k (fr_mesh Fr)
                         (tipAsymptote SP) (Some Vel_k) Kprime_tip None)) (\<lambda>vol.
     let wTip = map (\<lambda>x. fl_div x (EltArea (fr_mesh Fr))) vol
     in if \<exists>x \<in> set wTip. fl_lt x (Fin 0) then Inr (Inl 4) else Inr (Inr wTip))))"

definition vc_trial ::
  "'i env \<Rightarrow> fl list \<Rightarrow> fracture \<Rightarrow> fl \<Rightarrow> mat_prop \<Rightarrow> sim_prop \<Rightarrow> exn + (nat + trial)" where
  "vc_trial E w_k Fr timeStep MP SP =
     sbind (vc_toughness E w_k Fr timeStep MP SP) (\<lambda>(itr, sgndDist_k).
     sbind (vc_front E Fr sgndDist_k) (\<lambda>(EltsTipNew, l_k, alpha_k).
     sbind (vc_fill E Fr timeStep sgndDist_k EltsTipNew l_k alpha_k)
       (\<lambda>(InCrack_k, Vel_k, FillFrac_k).
     sbind (lift (UpdateLists E (fr_EltChannel Fr) EltsTipNew FillFrac_k sgndDist_k
                    (fr_mesh Fr)))
       (\<lambda>(EltChannel_k, EltTip_k, EltCrack_k, EltRibbon_k, zrVertx_k, CellStatus_k).
     sbind (vc_tip_width E w_k Fr MP SP sgndDist_k EltsTipNew l_k alpha_k Vel_k EltRibbon_k)
       (\<lambda>wTip.
     Inr (Inr \<lparr>t_sgndDist = sgndDist_k, t_EltsTipNew = EltsTipNew, t_l = l_k,
               t_alpha = alpha_k, t_InCrack = InCrack_k, t_Vel = Vel_k,
               t_FillFrac = FillFrac_k, t_EltChannel = EltChannel_k, t_EltTip = EltTip_k,
               t_EltCrack = EltCrack_k, t_EltRibbon = EltRibbon_k, t_zrVertx = zrVertx_k,
               t_wTip = wTip\<rparr>))))))"

text \<open>
  Lines 586-662: the diagonal of the cells that are partly filled is corrected, the
  system is assembled and solved, the block is written back, and the new fracture is
  built. A NaN or a negative width is status 5.
\<close>

definition vc_solve ::
  "'i env \<Rightarrow> fracture \<Rightarrow> mat \<Rightarrow> fl \<Rightarrow> fl \<Rightarrow> trial \<Rightarrow> exn + (nat \<times> fracture option \<times> mat)" where
  "vc_solve E Fr C timeStep Qin T =
     (let partlyFilledTip = partlyFilled (t_EltsTipNew T) (t_EltTip T);
          Tip = map (\<lambda>i. t_EltsTipNew T ! i) partlyFilledTip;
          nCh = length (fr_EltChannel Fr)
      in
      ebind (save_tip_block C Tip) (\<lambda>C_EltTip.
      ebind (np_take (t_FillFrac T) partlyFilledTip) (\<lambda>FillF.
      ebind (apply_tip_correction C Tip FillF) (\<lambda>C1.
      ebind (MakeEquationSystem_volumeControl_extendedFP E (fr_w Fr) (t_wTip T)
               (fr_EltChannel Fr) (t_EltsTipNew T) C1 timeStep Qin (EltArea (fr_mesh Fr)))
        (\<lambda>(A, b).
      ebind (linalg_solve E A b) (\<lambda>sol.
      ebind (restore_tip_block C1 Tip C_EltTip) (\<lambda>C2.
      ebind (np_take (fr_w Fr) (fr_EltChannel Fr)) (\<lambda>wch.
      ebind (np_take sol [0..<nCh]) (\<lambda>sch.
      ebind (np_put (fr_w Fr) (fr_EltChannel Fr) (map2 fl_add wch sch)) (\<lambda>w1.
      ebind (np_put w1 (t_EltsTipNew T) (t_wTip T)) (\<lambda>w2.
      if \<exists>x \<in> set w2. isnan x then Inr (5, None, C2)
      else if \<exists>x \<in> set w2. fl_lt x (Fin 0) then Inr (5, None, C2) else
      ebind (set_front (Fr\<lparr>fr_time := fl_add (fr_time Fr) timeStep, fr_w := w2\<rparr>) T) (\<lambda>Fr1.
      if sol = [] then Inl IndexError else
      ebind (np_fill (replicate (NumberOfElts (fr_mesh Fr)) (Fin 0)) (t_EltCrack T)
               (last sol)) (\<lambda>p'.
      ebind (np_take (t_Vel T) partlyFilledTip) (\<lambda>v'.
      ebind (process_fracture_front E
               (Fr1\<lparr>fr_p := p', fr_sgndDist := t_sgndDist T,
                     fr_sgndDist_last := fr_sgndDist Fr, fr_timeStep_last := timeStep,
                     fr_v := Some v'\<rparr>)) (\<lambda>Fr2.
      Inr (1, Some (Fr2\<lparr>fr_FractureVolume :=
                           fl_mul (fl_sum (fr_w Fr2)) (EltArea (fr_mesh Fr2))\<rparr>),
           C2))))))))))))))))"

definition injection_extended_footprint_volumeControl ::
  "'i env \<Rightarrow> fl list \<Rightarrow> fracture \<Rightarrow> mat \<Rightarrow> fl \<Rightarrow> fl \<Rightarrow> mat_prop \<Rightarrow> sim_prop
     \<Rightarrow> exn + (nat \<times> fracture option \<times> mat)" where
  "injection_extended_footprint_volumeControl E w_k Fr_lstTmStp C timeStep Qin MP SP =
     (case vc_trial E w_k Fr_lstTmStp timeStep MP SP of
        Inl e \<Rightarrow> Inl e
      | Inr (Inl exitstatus) \<Rightarrow> Inr (exitstatus, None, C)
      | Inr (Inr T) \<Rightarrow> vc_solve E Fr_lstTmStp C timeStep Qin T)"

section \<open>Controller\<close>

text \<open>
  The time step of the \<open>i\<close>-th attempt (Controller.py, 146-149):
  \<open>TimeStep * reAttemptFactor ** i\<close>, replaced by
  \<open>TimeStep * (1/reAttemptFactor)**(i+1 - maxReattempts/2)\<close> when
  \<open>i > maxReattempts/2 - 1\<close>. The division \<open>maxReattempts/2\<close> is the true division, so
  the exponent is an integer exactly for an even \<open>maxReattempts\<close>.
\<close>

definition reattempt_step :: "fl \<Rightarrow> real \<Rightarrow> nat \<Rightarrow> nat \<Rightarrow> exn + fl" where
  "reattempt_step TimeStep f n i =
     (if real i > real n / 2 - 1 then
        (if f = 0 then Inl ZeroDivisionError
         else if even n then Inr (fl_mul TimeStep (Fin ((1 / f) ^ (i + 1 - n div 2))))
         else if 0 < f
           then Inr (fl_mul TimeStep (Fin ((1 / f) powr (real i + 1 - real n / 2))))
         else Inl ComplexValue)
      else Inr (fl_mul TimeStep (Fin (f ^ i))))"

text \<open>
  The loop \<open>for i in range(0, maxReattempts)\<close> (144-198) over the attempts \<open>is\<close> that
  are left. \<open>attempt\<close> stands for the call of the time stepping function of the chosen
  mode with the given time step; \<open>prev\<close> is the result of the last attempt, and the
  list collects the time steps that were tried, as they are printed. The loop returns
  at once on status 1 and on status 12.
\<close>

fun reattempt_loop ::
  "(fl \<Rightarrow> exn + (nat \<times> 'r)) \<Rightarrow> fl \<Rightarrow> real \<Rightarrow> nat \<Rightarrow> nat list \<Rightarrow> (nat \<times> 'r) option \<Rightarrow> fl list
     \<Rightarrow> exn + (nat \<times> 'r \<times> fl list)" where
  "reattempt_loop attempt TimeStep f n [] prev tried =
     (case prev of
        None \<Rightarrow> Inl UnboundLocalError
      | Some (status, Fr) \<Rightarrow> Inr (status, Fr, tried))"
| "reattempt_loop attempt TimeStep f n (i # is) prev tried =
     (case reattempt_step TimeStep f n i of
        Inl e \<Rightarrow> Inl e
      | Inr smallerTimeStep \<Rightarrow>
          (case attempt smallerTimeStep of
             Inl e \<Rightarrow> Inl e
           | Inr (status, Fr) \<Rightarrow>
               if status = 1 then Inr (status, Fr, tried @ [smallerTimeStep])
               else if status = 12 then Inr (status, Fr, tried @ [smallerTimeStep])
               else reattempt_loop attempt TimeStep f n is (Some (status, Fr))
                      (tried @ [smallerTimeStep])))"

text \<open>
  \<open>advance_time_step\<close> (136-198): the time step is first cut to \<open>timeStep_limit\<close>
  (which then grows by the factor 1.8), and a negative one is replaced.
\<close>

definition limited_step :: "sim_prop \<Rightarrow> fl \<Rightarrow> fl \<times> sim_prop" where
  "limited_step SP TimeStep =
     (let (TimeStep1, SP1) =
            (if fl_gt TimeStep (timeStep_limit SP)
             then (timeStep_limit SP,
                   SP\<lparr>timeStep_limit := fl_mul (timeStep_limit SP) (Fin (18 / 10))\<rparr>)
             else (TimeStep, SP));
          TimeStep2 = (if fl_lt TimeStep1 (Fin 0) then fl_mul (timeStep_limit SP1) (Fin 2)
                       else TimeStep1)
      in (TimeStep2, SP1))"

definition advance_time_step ::
  "(fl \<Rightarrow> exn + (nat \<times> 'r)) \<Rightarrow> sim_prop \<Rightarrow> fl \<Rightarrow> exn + (nat \<times> 'r \<times> sim_prop \<times> fl list)" where
  "advance_time_step attempt SP TimeStep =
     (let (TimeStep2, SP1) = limited_step SP TimeStep in
      ebind (reattempt_loop attempt TimeStep2 (reAttemptFactor SP) (maxReattempts SP)
               [0..<maxReattempts SP] None [])
        (\<lambda>(status, Fr, tried). Inr (status, Fr, SP1, tried)))"

section \<open>A small fracture\<close>

text \<open>
  A mesh of five by five cells of size 3 by 4, numbered row by row, and a fracture on
  it: the centre cell 12 is the channel and the ribbon, its four neighbours are the tip.
\<close>

definition ex_mesh :: mesh where
  "ex_mesh = \<lparr>NumberOfElts = 25, hx = Fin 3, hy = Fin 4, EltArea = Fin 12, NeiElements =
    [[0, 1, 0, 5], [0, 2, 1, 6], [1, 3, 2, 7], [2, 4, 3, 8], [3, 4, 4, 9],
     [5, 6, 0, 10], [5, 7, 1, 11], [6, 8, 2, 12], [7, 9, 3, 13], [8, 9, 4, 14],
     [10, 11, 5, 15], [10, 12, 6, 16], [11, 13, 7, 17], [12, 14, 8, 18],
     [13, 14, 9, 19], [15, 16, 10, 20], [15, 17, 11, 21], [16, 18, 12, 22],
     [17, 19, 13, 23], [18, 19, 14, 24], [20, 21, 15, 20], [20, 22, 16, 21],
     [21, 23, 17, 22], [22, 24, 18, 23], [23, 24, 19, 24]]\<rparr>"

definition ex_w :: "fl list" where
  "ex_w = [Fin 0, Fin 0, Fin 0, Fin 0, Fin 0, Fin 0, Fin 0, Fin (1 / 2), Fin 0,
       Fin 0, Fin 0, Fin (1 / 2), Fin 2, Fin (1 / 2), Fin 0, Fin 0, Fin 0, Fin (1 / 2),
       Fin 0, Fin 0, Fin 0, Fin 0, Fin 0, Fin 0, Fin 0]"

definition ex_sgndDist :: "fl list" where
  "ex_sgndDist = [Fin 100, Fin 100, Fin 100, Fin 100, Fin 100, Fin 100, Fin 100, Fin 2,
       Fin 100, Fin 100, Fin 100, Fin 2, Fin (- 4), Fin 2, Fin 100, Fin 100, Fin 100,
       Fin 2, Fin 100, Fin 100, Fin 100, Fin 100, Fin 100, Fin 100, Fin 100]"

definition ex_Fr :: fracture where
  "ex_Fr = \<lparr>fr_w = ex_w, fr_p = replicate 25 (Fin 0), fr_sgndDist = ex_sgndDist,
     fr_EltChannel = [12], fr_EltTip = [7, 11, 13, 17], fr_EltCrack = [12, 7, 11, 13, 17],
     fr_EltRibbon = [12], fr_FillF = [Fin (1 / 2), Fin (1 / 2), Fin (1 / 2), Fin (1 / 2)],
     fr_alpha = [Fin 0, Fin 0, Fin 0, Fin 0], fr_l = [Fin 1, Fin 1, Fin 1, Fin 1],
     fr_v = Some [Fin 1, Fin 1, Fin 1, Fin 1], fr_ZeroVertex = [0, 0, 0, 0],
     fr_InCrack = [0, 0, 0, 0, 0, 0, 0, 1, 0, 0, 0, 1, 1, 1, 0, 0, 0, 1, 0, 0, 0, 0, 0, 0, 0],
     fr_time = Fin 0, fr_muPrime = replicate 25 (Fin 1), fr_mesh = ex_mesh,
     fr_FractureVolume = Fin 48, fr_sgndDist_last = ex_sgndDist, fr_timeStep_last = Fin 1\<rparr>"

definition ex_C :: mat where
  "ex_C = \<lparr>nr = 25, nc = 25, ent = (\<lambda>i j. if i = j then Fin 2 else Fin 1)\<rparr>"

text \<open>
  The functions from outside, for the example: a system whose solution is one in the
  first unknown and leaves the others (so the Picard iteration converges in its second
  pass), the toughness asymptote with \<open>Eprime = Kprime\<close> for the tip inversion
  (\<open>w[EltRibbon] ** 2 * (Eprime / Kprime) ** 2\<close>), a front that lies in the neighbours
  of the centre cell, or on the boundary once the centre is nine or more inside, and tip
  cells that are half filled, but for the first one.
\<close>

definition ex_solver :: "unit solver_funs" where
  "ex_solver = \<lparr>sys_fun = (\<lambda>solk i. Inr ([], Fin 1 # tl solk, (),
                                         [[0..<length solk], [], []])),
     Res_fun = (\<lambda>solk i. Inr (solk, (), [[0..<length solk], [], []])),
     Jacobian = (\<lambda>solk typ i. Inr []),
     np_linalg_solve = (\<lambda>A b. Inr b)\<rparr>"

definition ex_UpdateLists ::
  "nat list \<Rightarrow> nat list \<Rightarrow> fl list \<Rightarrow> fl list \<Rightarrow> mesh
     \<Rightarrow> exn + (nat list \<times> nat list \<times> nat list \<times> nat list \<times> nat list \<times> nat list)" where
  "ex_UpdateLists ch tip F s M =
     (let full = map (\<lambda>i. tip ! i) (filter (\<lambda>i. F ! i = Fin 1) [0..<length tip]);
          part = map (\<lambda>i. tip ! i) (filter (\<lambda>i. F ! i \<noteq> Fin 1) [0..<length tip])
      in Inr (ch @ full, part, ch @ full @ part, ch @ full, replicate (length part) 0, []))"

definition ex_env :: "unit env" where
  "ex_env = \<lparr>numpy_strict = True,
     velocity = (\<lambda>w crack incrack C. Inr ()),
     sameFP_funs = (\<lambda>Fr C ts Q. ex_solver),
     extendedFP_funs = (\<lambda>Fr tip wTip crack incrack C ts Q. ex_solver),
     toughness_at_tip_CellCenter = (\<lambda>ribbon M s. Inr (replicate (length ribbon) (Fin 1))),
     TipAsymInversion = (\<lambda>w Fr ts K.
        Inr (map (\<lambda>e. fl_mul (fl_mul (w ! e) (w ! e)) (Fin 1)) (fr_EltRibbon Fr))),
     SolveFMM = (\<lambda>s ribbon ch M pstv ngtv.
        Inr (fold (\<lambda>c t. if c \<in> set ribbon then t else t[c := fl_add (s ! hd ribbon) (Fin 5)])
               pstv s)),
     reconstruct_front = (\<lambda>s ch M.
        if fl_le (s ! 12) (Fin (- 9))
        then Inr ([2, 10, 14, 22], [Fin 1, Fin 1, Fin 1, Fin 1],
                  [Fin 0, Fin 0, Fin 0, Fin 0], [])
        else Inr ([7, 11, 13, 17], [Fin 1, Fin 1, Fin 1, Fin 1],
                  [Fin 0, Fin 0, Fin 0, Fin 0], [])),
     VolumeIntegral = (\<lambda>tip a l M asym mu vel stag.
        Inr (replicate (length tip) (Fin 6))),
     Integral_over_cell = (\<lambda>tip a l M asym vel K stag.
        if asym = Asym_A
        then Inr (Fin (12 * (1 + 1 / 10 ^ 5)) # replicate (length tip - 1) (Fin 6))
        else Inr (replicate (length tip) (Fin 6))),
     UpdateLists = ex_UpdateLists,
     StressIntensityFactor = (\<lambda>w s tip ribbon stag M. Inr (replicate (length tip) (Fin 1))),
     process_fracture_front = (\<lambda>Fr. Inr Fr),
     projection_from_ribbon = (\<lambda>ribbon ch M s. Inr (replicate (length ribbon) (Fin 0))),
     get_toughness_from_cellCenter = (\<lambda>a s ribbon M. Inr (replicate (length ribbon) (Fin 1))),
     get_toughness_from_zeroVertex = (\<lambda>tip M a l z. Inr (replicate (length tip) (Fin 1))),
     find_zero_vertex = (\<lambda>tip s M. Inr (replicate (length tip) 0)),
     MakeEquationSystem_volumeControl_sameFP = (\<lambda>w crack C ts Q A.
        Inr ([], replicate (length crack) (Fin 1) @ [Fin 3])),
     MakeEquationSystem_volumeControl_extendedFP = (\<lambda>w wTip ch tip C ts Q A.
        Inr ([], replicate (length ch) (Fin 1) @ [Fin 3])),
     linalg_solve = (\<lambda>A b. Inr b)\<rparr>"

definition ex_SP :: sim_prop where
  "ex_SP = \<lparr>toleranceEHL = Fin (1 / 1000), maxSolverItr = 4, tolFractFront = Fin (1 / 1000),
     maxFrontItr = 3, toleranceToughness = Fin (1 / 1000), maxToughnessItr = 2,
     tmStpPrefactor = Fin 1, tipAsymptote = Asym_K, frontAdvancing = Implicit,
     timeStep_limit = Fin 10, maxReattempts = 4, reAttemptFactor = 1 / 2\<rparr>"

definition ex_MP :: mat_prop where
  "ex_MP = \<lparr>anisotropic = False, KprimeFunc_given = False, K1cFunc_given = True\<rparr>"

definition ex_Qin :: "fl list" where
  "ex_Qin = (replicate 25 (Fin 0))[12 := Fin (5 / 2)]"

definition ex_SP_cap :: sim_prop where
  "ex_SP_cap = ex_SP\<lparr>maxSolverItr := 2\<rparr>"

definition ex_SP_tough :: sim_prop where
  "ex_SP_tough = ex_SP\<lparr>maxToughnessItr := 1\<rparr>"

definition ex_MP_K :: mat_prop where
  "ex_MP_K = ex_MP\<lparr>KprimeFunc_given := True\<rparr>"

definition ex_IP :: inj_prop where
  "ex_IP = \<lparr>injectionRate_times = [Fin 0], injectionRate_rates = [Fin (5 / 2)],
     source_location = [12]\<rparr>"

text \<open>The same fracture with a small negative width in the corner cell.\<close>

definition ex_Fr_neg :: fracture where
  "ex_Fr_neg = ex_Fr\<lparr>fr_w := ex_w[0 := Fin (- 1 / 100)]\<rparr>"

section \<open>Properties\<close>

lemma ebind_simps [simp]:
  "ebind (Inl e) f = Inl e"
  "ebind (Inr x) f = f x"
  by (simp_all add: ebind_def)

lemma ebind_eq_Inr:
  "ebind m f = Inr y \<longleftrightarrow> (\<exists>x. m = Inr x \<and> f x = Inr y)"
  by (cases m) simp_all

subsection \<open>Helper facts\<close>

lemma np_take_Inr:
  "np_take xs idx = Inr ys \<longleftrightarrow> (\<forall>i\<in>set idx. i < length xs) \<and> ys = map (\<lambda>i. xs ! i) idx"
  by (auto simp: np_take_def)

lemma upt_all_less: "(\<forall>i\<in>set [0..<n]. i < m) \<longleftrightarrow> n \<le> (m::nat)"
proof
  assume a: "\<forall>i\<in>set [0..<n]. i < m"
  show "n \<le> m"
  proof (rule ccontr)
    assume "\<not> n \<le> m"
    then have "m \<in> set [0..<n]" by simp
    with a show False by blast
  qed
qed auto

lemma np_take_upt:
  "np_take xs [0..<n] = Inr ys \<longleftrightarrow> n \<le> length xs \<and> ys = map (\<lambda>i. xs ! i) [0..<n]"
  unfolding np_take_Inr upt_all_less ..

lemma np_delete_Inr:
  "np_delete strict xs idx = Inr r \<Longrightarrow>
     r = map (\<lambda>j. xs ! j) (filter (\<lambda>j. j \<notin> set idx) [0..<length xs])"
  by (auto simp: np_delete_def split: if_splits)

lemma np_delete_prefix:
  assumes n: "n \<le> length ys" "n \<le> length xs"
    and d: "np_delete strict (map (\<lambda>i. xs ! i) [0..<n]) (filter P [0..<length ys]) = Inr r"
  shows "r = map (\<lambda>i. xs ! i) (filter (\<lambda>i. \<not> P i) [0..<n])"
proof -
  have f: "filter (\<lambda>j. j \<notin> set (filter P [0..<length ys])) [0..<n] = filter (\<lambda>i. \<not> P i) [0..<n]"
    using n by (intro filter_cong) auto
  have m: "map (\<lambda>j. map (\<lambda>i. xs ! i) [0..<n] ! j) (filter (\<lambda>i. \<not> P i) [0..<n])
        = map (\<lambda>i. xs ! i) (filter (\<lambda>i. \<not> P i) [0..<n])"
    by (intro map_cong) auto
  from np_delete_Inr[OF d]
  have "r = map (\<lambda>j. map (\<lambda>i. xs ! i) [0..<n] ! j)
              (filter (\<lambda>j. j \<notin> set (filter P [0..<length ys])) [0..<n])"
    by simp
  then show ?thesis
    by (simp only: f m)
qed

lemma filter_none:
  assumes "filter P [0..<m] = []" "n \<le> m"
  shows "filter (\<lambda>i. \<not> P i) [0..<n] = [0..<n]"
  using assms by (auto simp: filter_empty_conv filter_id_conv)

lemma set_last_entry_ones:
  "set_last_entry (A0 @ [replicate (n + 1) x]) v = Inr (A0 @ [replicate n x @ [v]])"
proof -
  have r: "replicate (n + 1) x = replicate n x @ [x]"
    by (simp add: replicate_append_same)
  show ?thesis
    unfolding r by (simp add: set_last_entry_def)
qed

lemma fl_sum_Fin: "fl_sum (map Fin xs) = Fin (sum_list xs)"
proof -
  have "foldl fl_add (Fin a) (map Fin xs) = Fin (a + sum_list xs)" for a
    by (induction xs arbitrary: a) (simp_all add: add.assoc)
  then show ?thesis by (simp add: fl_sum_def)
qed

subsection \<open>The volume balance row\<close>

text \<open>
  C7. In the system that \<open>MakeEquationSystem_volumeControl\<close> assembles, the unknowns are
  the width increments of the channel cells followed by the pressure. The last row of
  the matrix has a one in the column of every channel cell and a zero in the pressure
  column, and the last entry of the right-hand side is
  \<open>sum(Q) dt / ElemArea - (sum(wTip) - sum(w_lst_tmstp[EltTip])) - sum(lkOff)\<close>.
\<close>

theorem MakeEquationSystem_volumeControl_last_row:
  assumes "MakeEquationSystem_volumeControl w_lst_tmstp wTip EltChannel EltTip sigma_o C dt Q
             ElemArea lkOff = Inr (A, S)"
  shows "length A = length EltChannel + 1 \<and> length S = length EltChannel + 1
     \<and> (\<forall>i < length EltChannel.
          A ! i = map (\<lambda>c. ent C (EltChannel ! i) c) EltChannel @ [Fin (- 1)])
     \<and> last A = replicate (length EltChannel) (Fin 1) @ [Fin 0]
     \<and> last S = fl_sub (fl_sub (fl_div (fl_mul (fl_sum Q) dt) ElemArea)
                          (fl_sub (fl_sum wTip) (fl_sum (map (\<lambda>e. w_lst_tmstp ! e) EltTip))))
                  (fl_sum lkOff)"
  using assms
  unfolding MakeEquationSystem_volumeControl_def Let_def set_last_entry_ones
  by (clarsimp simp: ebind_eq_Inr np_ix_def np_take_def np_dot_def nth_append split: if_splits)

theorem MakeEquationSystem_volumeControl_last_row_witness:
  "MakeEquationSystem_volumeControl [Fin 1, Fin 2, Fin 3] [Fin 5] [0, 1] [2]
       [Fin 0, Fin 0, Fin 0] \<lparr>nr = 3, nc = 3, ent = (\<lambda>i j. Fin 1)\<rparr> (Fin 2)
       [Fin 3, Fin 0, Fin 0] (Fin 2) [Fin 0, Fin 0, Fin 1]
     = Inr ([[Fin 1, Fin 1, Fin (- 1)], [Fin 1, Fin 1, Fin (- 1)], [Fin 1, Fin 1, Fin 0]],
            [Fin (- 8), Fin (- 8), Fin 0])
   \<and> last [[Fin 1, Fin 1, Fin (- 1)], [Fin 1, Fin 1, Fin (- 1)], [Fin 1, Fin 1, Fin 0]]
       = replicate (length [0::nat, 1]) (Fin 1) @ [Fin 0]
   \<and> last [Fin (- 8), Fin (- 8), Fin 0]
       = fl_sub (fl_sub (fl_div (fl_mul (fl_sum [Fin 3, Fin 0, Fin 0]) (Fin 2)) (Fin 2))
                        (fl_sub (fl_sum [Fin 5])
                                (fl_sum (map (\<lambda>e. [Fin 1, Fin 2, Fin 3] ! e) [2]))))
                (fl_sum [Fin 0, Fin 0, Fin 1])"
proof -
  have e: "MakeEquationSystem_volumeControl [Fin 1, Fin 2, Fin 3] [Fin 5] [0, 1] [2]
       [Fin 0, Fin 0, Fin 0] \<lparr>nr = 3, nc = 3, ent = (\<lambda>i j. Fin 1)\<rparr> (Fin 2)
       [Fin 3, Fin 0, Fin 0] (Fin 2) [Fin 0, Fin 0, Fin 1]
     = Inr ([[Fin 1, Fin 1, Fin (- 1)], [Fin 1, Fin 1, Fin (- 1)], [Fin 1, Fin 1, Fin 0]],
            [Fin (- 8), Fin (- 8), Fin 0])"
    by (simp add: MakeEquationSystem_volumeControl_def np_ix_def np_take_def np_dot_def
        set_last_entry_def fl_sum_def fl_sub_def)
  from MakeEquationSystem_volumeControl_last_row [OF e] e show ?thesis
    by blast
qed

subsection \<open>The convergence test\<close>

text \<open>
  Every system function of the solver numbers the channel widths first
  (\<open>ch_indxs = np.arange(n_ch)\<close>), so \<open>indices[0]\<close> is an initial segment, and the
  positions of the zeros in the whole vector are the positions to delete in the width
  part. With the lenient \<open>np.delete\<close> the test returns whenever the index arrays are
  in range.
\<close>

lemma check_covergance_returns:
  assumes "length indices = 3"
    and "\<forall>ix \<in> set indices. \<forall>i \<in> set ix. i < length solk \<and> i < length solkm1"
  shows "\<exists>r. check_covergance False solk solkm1 indices tol = Inr r"
proof -
  from assms(1) have "indices ! 0 \<in> set indices" "indices ! 1 \<in> set indices"
    "indices ! 2 \<in> set indices"
    by simp_all
  with assms(2) have "\<forall>i \<in> set (indices ! 0). i < length solk \<and> i < length solkm1"
    "\<forall>i \<in> set (indices ! 1). i < length solk \<and> i < length solkm1"
    "\<forall>i \<in> set (indices ! 2). i < length solk \<and> i < length solkm1"
    by blast+
  then show ?thesis
    using assms(1) by (simp add: check_covergance_def Let_def np_take_def np_delete_def)
qed

text \<open>
  C8. The solver declares convergence exactly when the norms of the componentwise
  relative differences of the widths, of the pressures and of the tractions are all at
  most the tolerance, where the width norm leaves out exactly the widths whose last
  iterate is zero.
\<close>

theorem check_covergance_spec:
  assumes len: "length indices = 3"
    and pre: "indices ! 0 = [0..<n]"
    and run: "check_covergance strict solk solkm1 indices tol = Inr (conv, nrm)"
  shows "conv = spec_converged solk solkm1 indices tol"
proof -
  let ?Z = "\<lambda>i. fl_eq (solkm1 ! i) (Fin 0)"
  let ?kept = "filter (\<lambda>i. \<not> ?Z i) [0..<n]"
  let ?nw = "np_norm (rel_diff (map (\<lambda>i. solk ! i) ?kept) (map (\<lambda>i. solkm1 ! i) ?kept))"
  let ?np = "np_norm (rel_diff (map (\<lambda>i. solk ! i) (indices ! 1))
                               (map (\<lambda>i. solkm1 ! i) (indices ! 1)))"
  let ?nt = "np_norm (rel_diff (map (\<lambda>i. solk ! i) (indices ! 2))
                               (map (\<lambda>i. solkm1 ! i) (indices ! 2)))"
  from run len obtain norm_w norm_tr where
      w: "(if 0 < length (filter ?Z [0..<length solkm1]) then
               ebind (np_take solk (indices ! 0)) (\<lambda>delw.
               ebind (np_take solkm1 (indices ! 0)) (\<lambda>delw_km1.
               ebind (np_delete strict delw (filter ?Z [0..<length solkm1])) (\<lambda>delw'.
               ebind (np_delete strict delw_km1 (filter ?Z [0..<length solkm1])) (\<lambda>delw_km1'.
               Inr (np_norm (rel_diff delw' delw_km1'))))))
             else
               ebind (np_take solk (indices ! 0)) (\<lambda>a.
               ebind (np_take solkm1 (indices ! 0)) (\<lambda>b.
               Inr (np_norm (rel_diff a b))))) = Inr norm_w"
    and t: "(if 0 < length (indices ! 2) then
               ebind (np_take solk (indices ! 2)) (\<lambda>tk.
               ebind (np_take solkm1 (indices ! 2)) (\<lambda>tkm1.
               Inr (np_norm (rel_diff tk tkm1))))
             else Inr (Fin 0)) = Inr norm_tr"
    and c: "conv = (fl_le norm_w tol \<and> fl_le ?np tol \<and> fl_le norm_tr tol)"
    unfolding check_covergance_def Let_def
    by (auto simp: ebind_eq_Inr np_take_Inr)
  have nt: "norm_tr = ?nt"
    using t by (auto simp: ebind_eq_Inr np_take_Inr np_norm_def rel_diff_def fl_sum_def
        split: if_splits)
  have nw: "norm_w = ?nw"
  proof (cases "0 < length (filter ?Z [0..<length solkm1])")
    case True
    with w pre obtain r1 r2 where b: "n \<le> length solk" "n \<le> length solkm1"
      and d1: "np_delete strict (map (\<lambda>i. solk ! i) [0..<n])
                 (filter ?Z [0..<length solkm1]) = Inr r1"
      and d2: "np_delete strict (map (\<lambda>i. solkm1 ! i) [0..<n])
                 (filter ?Z [0..<length solkm1]) = Inr r2"
      and e: "norm_w = np_norm (rel_diff r1 r2)"
      by (auto simp: ebind_eq_Inr np_take_upt)
    show ?thesis
      using np_delete_prefix[OF b(2) b(1) d1] np_delete_prefix[OF b(2) b(2) d2] e by simp
  next
    case False
    then have z: "filter ?Z [0..<length solkm1] = []" by simp
    from False w pre have b: "n \<le> length solk" "n \<le> length solkm1"
      and e: "norm_w = np_norm (rel_diff (map (\<lambda>i. solk ! i) [0..<n])
                                         (map (\<lambda>i. solkm1 ! i) [0..<n]))"
      by (auto simp: ebind_eq_Inr np_take_upt)
    show ?thesis
      using e filter_none[OF z b(2)] by simp
  qed
  show ?thesis
    unfolding spec_converged_def Let_def pre c nw nt by simp
qed

theorem check_covergance_spec_witness:
  "length [[0..<2], [2], []] = 3 \<and> [[0..<2], [2], []] ! 0 = [0..<2]
   \<and> check_covergance True [Fin 1, Fin 2, Fin 3] [Fin 0, Fin 2, Fin 3] [[0..<2], [2], []]
        (Fin (1 / 10)) = Inr (True, Fin 0)
   \<and> spec_converged [Fin 1, Fin 2, Fin 3] [Fin 0, Fin 2, Fin 3] [[0..<2], [2], []]
        (Fin (1 / 10))"
proof -
  have l: "length [[0..<2], [2::nat], []] = 3" and p: "[[0..<2], [2::nat], []] ! 0 = [0..<2]"
    by simp_all
  have e: "check_covergance True [Fin 1, Fin 2, Fin 3] [Fin 0, Fin 2, Fin 3]
             [[0..<2], [2], []] (Fin (1 / 10)) = Inr (True, Fin 0)"
    by (simp add: check_covergance_def np_take_def np_delete_def np_norm_def rel_diff_def
        fl_sum_def fl_eq_def fl_sub_def upt_rec Let_def)
  from check_covergance_spec [OF l p e] l p e show ?thesis
    by blast
qed

subsection \<open>The tip correction is undone\<close>

lemma tip_correction_loop_frame:
  "tip_correction_loop Tip FillF es C = Inr C' \<Longrightarrow>
     nr C' = nr C \<and> nc C' = nc C \<and> mat.more C' = mat.more C \<and>
     (\<forall>i j. \<not> (i = j \<and> i \<in> set Tip) \<longrightarrow> ent C' i j = ent C i j)"
proof (induction es arbitrary: C)
  case Nil
  then show ?case by simp
next
  case (Cons e es)
  from Cons.prems have e: "e < length FillF" "e < length Tip"
    and r: "tip_correction_loop Tip FillF es
             (C\<lparr>ent := ent_upd (ent C) (Tip ! e) (Tip ! e)
                         (fl_mul (ent C (Tip ! e) (Tip ! e)) (tip_factor (FillF ! e)))\<rparr>) = Inr C'"
    by (auto split: if_splits)
  from Cons.IH[OF r] e show ?case
    by (auto simp: ent_upd_def)
qed

lemma fold_row:
  "fold (\<lambda>c E. ent_upd E r c (f c)) cols E =
     (\<lambda>i j. if i = r \<and> j \<in> set cols then f j else E i j)"
proof (induction cols arbitrary: E)
  case Nil
  then show ?case by simp
next
  case (Cons c cols)
  show ?case
    unfolding fold_simps Cons.IH
    by (auto simp: ent_upd_def fun_eq_iff)
qed

lemma fold_rows:
  "fold (\<lambda>r E. fold (\<lambda>c E'. ent_upd E' r c (f r c)) cols E) rows E =
     (\<lambda>i j. if i \<in> set rows \<and> j \<in> set cols then f i j else E i j)"
proof -
  have g: "(\<lambda>r E. fold (\<lambda>c E'. ent_upd E' r c (f r c)) cols E)
         = (\<lambda>r E i j. if i = r \<and> j \<in> set cols then f r j else E i j)"
    by (simp add: fold_row)
  have "fold (\<lambda>r E i j. if i = r \<and> j \<in> set cols then f r j else E i j) rows E =
     (\<lambda>i j. if i \<in> set rows \<and> j \<in> set cols then f i j else E i j)"
  proof (induction rows arbitrary: E)
    case Nil
    then show ?case by simp
  next
    case (Cons r rows)
    show ?case
      unfolding fold_simps Cons.IH
      by (auto simp: fun_eq_iff)
  qed
  then show ?thesis
    unfolding g .
qed

lemma fold_index:
  "fold (\<lambda>a. h (xs ! a)) [0..<length xs] = fold h xs"
proof -
  have "fold h (map (\<lambda>a. xs ! a) [0..<length xs]) = fold (\<lambda>a. h (xs ! a)) [0..<length xs]"
    by (simp add: fold_map comp_def)
  then show ?thesis by (simp add: map_nth)
qed

lemma np_ix_put_saved:
  assumes "np_ix_put C1 rows cols (map (\<lambda>r. map (\<lambda>c. f r c) cols) rows) = Inr C2"
  shows "nr C2 = nr C1 \<and> nc C2 = nc C1 \<and> mat.more C2 = mat.more C1 \<and>
     ent C2 = (\<lambda>i j. if i \<in> set rows \<and> j \<in> set cols then f i j else ent C1 i j)"
proof -
  have inner: "fold (\<lambda>b E'. ent_upd E' (rows ! a) (cols ! b)
                   (map (\<lambda>r. map (\<lambda>c. f r c) cols) rows ! a ! b)) [0..<length cols] E
             = fold (\<lambda>c E'. ent_upd E' (rows ! a) c (f (rows ! a) c)) cols E"
    if "a < length rows" for a E
  proof -
    have "fold (\<lambda>b E'. ent_upd E' (rows ! a) (cols ! b)
                   (map (\<lambda>r. map (\<lambda>c. f r c) cols) rows ! a ! b)) [0..<length cols] E
        = fold (\<lambda>b. (\<lambda>c E'. ent_upd E' (rows ! a) c (f (rows ! a) c)) (cols ! b)) [0..<length cols] E"
      using that by (intro fold_cong) auto
    also have "\<dots> = fold (\<lambda>c E'. ent_upd E' (rows ! a) c (f (rows ! a) c)) cols E"
      using fold_index[of "\<lambda>c E'. ent_upd E' (rows ! a) c (f (rows ! a) c)" cols] by simp
    finally show ?thesis .
  qed
  have outer: "fold (\<lambda>a E. fold (\<lambda>b E'. ent_upd E' (rows ! a) (cols ! b)
                   (map (\<lambda>r. map (\<lambda>c. f r c) cols) rows ! a ! b)) [0..<length cols] E)
                 [0..<length rows] E
             = fold (\<lambda>r E. fold (\<lambda>c E'. ent_upd E' r c (f r c)) cols E) rows E" for E
  proof -
    have "fold (\<lambda>a E. fold (\<lambda>b E'. ent_upd E' (rows ! a) (cols ! b)
                   (map (\<lambda>r. map (\<lambda>c. f r c) cols) rows ! a ! b)) [0..<length cols] E)
                 [0..<length rows] E
        = fold (\<lambda>a. (\<lambda>r E. fold (\<lambda>c E'. ent_upd E' r c (f r c)) cols E) (rows ! a))
                 [0..<length rows] E"
    proof (rule fold_cong)
      fix a assume "a \<in> set [0..<length rows]"
      then have a: "a < length rows" by simp
      show "(\<lambda>E. fold (\<lambda>b E'. ent_upd E' (rows ! a) (cols ! b)
                   (map (\<lambda>r. map (\<lambda>c. f r c) cols) rows ! a ! b)) [0..<length cols] E)
          = (\<lambda>r E. fold (\<lambda>c E'. ent_upd E' r c (f r c)) cols E) (rows ! a)"
        by (rule ext) (rule inner[OF a])
    qed (rule refl)+
    also have "\<dots> = fold (\<lambda>r E. fold (\<lambda>c E'. ent_upd E' r c (f r c)) cols E) rows E"
      using fold_index[of "\<lambda>r E. fold (\<lambda>c E'. ent_upd E' r c (f r c)) cols E" rows] by simp
    finally show ?thesis .
  qed
  from assms show ?thesis
    unfolding np_ix_put_def outer fold_rows
    by (auto split: if_splits)
qed

lemma correction_restored:
  assumes s: "save_tip_block C Tip = Inr B"
    and a: "apply_tip_correction C Tip FillF = Inr C1"
    and r: "restore_tip_block C1 Tip B = Inr C2"
  shows "C2 = C"
proof -
  from s have B: "B = map (\<lambda>r. map (\<lambda>c. ent C r c) Tip) Tip"
    by (auto simp: save_tip_block_def np_ix_def split: if_splits)
  from a have f: "nr C1 = nr C" "nc C1 = nc C" "mat.more C1 = mat.more C"
    "\<And>i j. \<not> (i = j \<and> i \<in> set Tip) \<Longrightarrow> ent C1 i j = ent C i j"
    using tip_correction_loop_frame[of Tip FillF "[0..<length Tip]" C C1]
    by (auto simp: apply_tip_correction_def)
  from r have p: "nr C2 = nr C1" "nc C2 = nc C1" "mat.more C2 = mat.more C1"
    "ent C2 = (\<lambda>i j. if i \<in> set Tip \<and> j \<in> set Tip then ent C i j else ent C1 i j)"
    using np_ix_put_saved[of C1 Tip Tip "ent C" C2]
    by (auto simp: restore_tip_block_def B)
  have "ent C2 i j = ent C i j" for i j
  proof (cases "i \<in> set Tip \<and> j \<in> set Tip")
    case True
    then show ?thesis by (simp add: p(4))
  next
    case False
    then have "\<not> (i = j \<and> i \<in> set Tip)" by blast
    from f(4)[OF this] False show ?thesis by (simp add: p(4))
  qed
  then have "ent C2 = ent C"
    by (simp add: fun_eq_iff)
  with f p show ?thesis
    by (intro mat.equality) simp_all
qed

lemma same_footprint_width_C:
  assumes "same_footprint_width E Fr C ts Qin SP = Inr (w_k, C', msg)"
  shows "C' = C"
proof -
  from assms obtain B C1 where
    "save_tip_block C (fr_EltTip Fr) = Inr B"
    "apply_tip_correction C (fr_EltTip Fr) (fr_FillF Fr) = Inr C1"
    "restore_tip_block C1 (fr_EltTip Fr) B = Inr C'"
    unfolding same_footprint_width_def Let_def
    by (auto simp: ebind_eq_Inr split: prod.splits)
  then show ?thesis by (rule correction_restored)
qed

lemma injection_same_footprint_Inr:
  "injection_same_footprint E Fr C ts Qin SP = Inr (st, res, C', msg) \<longleftrightarrow>
     (\<exists>w_k. same_footprint_width E Fr C ts Qin SP = Inr (w_k, C', msg)
        \<and> width_status (small_negative_fix w_k) = (st, res))"
proof (cases "same_footprint_width E Fr C ts Qin SP")
  case (Inl e)
  then show ?thesis by (simp add: injection_same_footprint_def)
next
  case (Inr x)
  obtain w_k C2 m where x: "x = (w_k, C2, m)" by (cases x)
  obtain s r where wst: "width_status (small_negative_fix w_k) = (s, r)"
    by (cases "width_status (small_negative_fix w_k)")
  show ?thesis
    unfolding injection_same_footprint_def Inr x
    by (auto simp: wst)
qed

lemma injection_same_footprint_C:
  assumes "injection_same_footprint E Fr C ts Qin SP = Inr (st, res, C', msg)"
  shows "C' = C"
  using assms same_footprint_width_C
  unfolding injection_same_footprint_Inr by blast

lemma injection_same_footprint_volumeControl_C:
  assumes "injection_same_footprint_volumeControl E Fr C ts Q = Inr (st, res, C')"
  shows "C' = C"
proof -
  from assms obtain B C1 where
    "save_tip_block C (fr_EltTip Fr) = Inr B"
    "apply_tip_correction C (fr_EltTip Fr) (fr_FillF Fr) = Inr C1"
    "restore_tip_block C1 (fr_EltTip Fr) B = Inr C'"
    unfolding injection_same_footprint_volumeControl_def
    by (auto simp: ebind_eq_Inr split: prod.splits if_splits)
  then show ?thesis by (rule correction_restored)
qed

lemma vc_solve_C:
  assumes "vc_solve E Fr C ts Q T = Inr (st, res, C')"
  shows "C' = C"
proof -
  let ?Tip = "map (\<lambda>i. t_EltsTipNew T ! i) (partlyFilled (t_EltsTipNew T) (t_EltTip T))"
  from assms obtain B FillF C1 where
    "save_tip_block C ?Tip = Inr B"
    "apply_tip_correction C ?Tip FillF = Inr C1"
    "restore_tip_block C1 ?Tip B = Inr C'"
    unfolding vc_solve_def Let_def
    by (auto simp: ebind_eq_Inr split: prod.splits if_splits)
  then show ?thesis by (rule correction_restored)
qed

lemma injection_extended_footprint_volumeControl_C:
  assumes "injection_extended_footprint_volumeControl E w_k Fr C ts Q MP SP = Inr (st, res, C')"
  shows "C' = C"
  using assms vc_solve_C
  unfolding injection_extended_footprint_volumeControl_def
  by (fastforce split: sum.splits)

subsection \<open>Writing into arrays, and NaN\<close>

lemma fold_upd_length [simp]:
  "length (fold (\<lambda>(i, v) ys. ys[i := v]) zs xs) = length xs"
  by (induction zs arbitrary: xs) (auto split: prod.splits)

lemma fold_upd_other:
  "e \<notin> fst ` set zs \<Longrightarrow> fold (\<lambda>(i, v) ys. ys[i := v]) zs xs ! e = xs ! e"
  by (induction zs arbitrary: xs) (auto split: prod.splits)

lemma fold_upd_written:
  assumes "\<forall>(i, v) \<in> set zs. P v" "e \<in> fst ` set zs" "e < length xs"
  shows "P (fold (\<lambda>(i, v) ys. ys[i := v]) zs xs ! e)"
  using assms
proof (induction zs arbitrary: xs)
  case Nil
  then show ?case by simp
next
  case (Cons z zs)
  obtain i v where z: "z = (i, v)" by (cases z)
  show ?case
  proof (cases "e \<in> fst ` set zs")
    case True
    with Cons.prems Cons.IH[of "xs[i := v]"] show ?thesis
      by (simp add: z)
  next
    case False
    with Cons.prems have "e = i" by (auto simp: z)
    with False Cons.prems show ?thesis
      by (simp add: z fold_upd_other)
  qed
qed

lemma fold_fill_eq:
  "fold (\<lambda>i ys. ys[i := c]) idx xs = fold (\<lambda>(i, v) ys. ys[i := v]) (zip idx (replicate (length idx) c)) xs"
  by (induction idx arbitrary: xs) simp_all

lemma np_put_zip:
  assumes "np_put xs idx vals = Inr ys"
  shows "\<exists>vs. length vs = length idx \<and> set vs \<subseteq> set vals
           \<and> ys = fold (\<lambda>(i, v) ys. ys[i := v]) (zip idx vs) xs
           \<and> (\<forall>i \<in> set idx. i < length xs)"
proof (cases "length vals = length idx")
  case True
  with assms show ?thesis
    by (intro exI[of _ vals]) (auto simp: np_put_def split: if_splits)
next
  case False
  with assms have l: "length vals = 1" and r: "\<forall>i \<in> set idx. i < length xs"
    and y: "ys = fold (\<lambda>i ys. ys[i := hd vals]) idx xs"
    by (auto simp: np_put_def split: if_splits)
  from l have "hd vals \<in> set vals" by (cases vals) auto
  then show ?thesis
    using r y by (intro exI[of _ "replicate (length idx) (hd vals)"]) (auto simp: fold_fill_eq)
qed

lemma np_put_length: "np_put xs idx vals = Inr ys \<Longrightarrow> length ys = length xs"
  using np_put_zip[of xs idx vals ys] by auto

lemma np_put_other:
  "np_put xs idx vals = Inr ys \<Longrightarrow> e \<notin> set idx \<Longrightarrow> ys ! e = xs ! e"
proof -
  assume a: "np_put xs idx vals = Inr ys" and e: "e \<notin> set idx"
  from np_put_zip[OF a] obtain vs where v: "length vs = length idx"
    "ys = fold (\<lambda>(i, v) ys. ys[i := v]) (zip idx vs) xs" by blast
  have "e \<notin> fst ` set (zip idx vs)"
    using e by (auto dest: set_zip_leftD)
  then show ?thesis
    unfolding v(2) by (rule fold_upd_other)
qed

lemma np_put_written:
  assumes a: "np_put xs idx vals = Inr ys" and P: "\<forall>v \<in> set vals. P v" and e: "e \<in> set idx"
  shows "P (ys ! e) \<and> e < length ys"
proof -
  from np_put_zip[OF a] obtain vs where v: "length vs = length idx" "set vs \<subseteq> set vals"
    "ys = fold (\<lambda>(i, v) ys. ys[i := v]) (zip idx vs) xs" "\<forall>i \<in> set idx. i < length xs"
    by blast
  have 1: "\<forall>(i, v) \<in> set (zip idx vs). P v"
    using P v(2) by (auto dest: set_zip_rightD)
  have 2: "e \<in> fst ` set (zip idx vs)"
    using e v(1) by (simp add: map_fst_zip flip: set_map)
  from fold_upd_written[OF 1 2, of xs] v e show ?thesis
    by simp
qed

lemma fl_add_NaN [simp]: "fl_add x NaN = NaN"
  by (cases x) simp_all

lemma np_bin_add_nan:
  assumes c: "np_bin fl_add a b = Inr c" and b: "\<forall>x \<in> set b. isnan x"
  shows "\<forall>x \<in> set c. isnan x"
proof -
  have n: "fl_add x y = NaN" if "isnan y" for x y
    using that by (cases y) simp_all
  consider "length a = length b" "c = map2 fl_add a b"
    | "length b = 1" "c = map (\<lambda>x. fl_add x (hd b)) a"
    | "c = map (\<lambda>y. fl_add (hd a) y) b"
    using c unfolding np_bin_def by (auto split: if_splits)
  then show ?thesis
  proof cases
    case 1
    show ?thesis
    proof
      fix x assume "x \<in> set c"
      then obtain p q where "(p, q) \<in> set (zip a b)" "x = fl_add p q"
        unfolding 1(2) by auto
      with b n[of q p] show "isnan x"
        by (auto dest: set_zip_rightD)
    qed
  next
    case 2
    then have "hd b \<in> set b" by (cases b) auto
    with b have "isnan (hd b)" by blast
    then show ?thesis
      unfolding 2(2) by (simp add: n)
  next
    case 3
    with b show ?thesis by (simp add: n)
  qed
qed

subsection \<open>What Picard_Newton returns\<close>

lemma Picard_Newton_body_Returned:
  assumes "Picard_Newton_body F strict TypValue Tol maxitr relax PPN k solk interItr newton Jac
             = Returned s d m"
  shows "d = None \<and> (\<forall>x \<in> set s. isnan x)
          \<and> (m = Singular_matrix \<or> (m = Not_converged maxitr \<and> Suc k = maxitr))"
  using assms
  unfolding Picard_Newton_body_def Let_def
  by (auto split: sum.splits option.splits prod.splits if_splits)

lemma Picard_Newton_loop_message:
  assumes "Picard_Newton_loop F strict TypValue Tol maxitr relax PPN converged k solk interItr
             newton Jac = Inr (sol, d, m)"
  shows "(case m of
            Converged_after n \<Rightarrow> d \<noteq> None
          | Singular_matrix \<Rightarrow> d = None \<and> (\<forall>x \<in> set sol. isnan x)
          | Not_converged n \<Rightarrow> n = maxitr \<and> d = None \<and> (\<forall>x \<in> set sol. isnan x))"
  using assms
proof (induction F strict TypValue Tol maxitr relax PPN converged k solk interItr newton Jac
    rule: Picard_Newton_loop.induct)
  case (1 F strict TypValue Tol maxitr relax PPN converged k solk interItr newton Jac)
  show ?case
  proof (cases "\<not> converged \<and> k < maxitr")
    case False
    with "1.prems" show ?thesis
      by (auto simp: Picard_Newton_loop.simps[of _ _ _ _ _ _ _ converged k])
  next
    case True
    note t = this
    show ?thesis
    proof (cases "Picard_Newton_body F strict TypValue Tol maxitr relax PPN k solk interItr newton Jac")
      case (Raised e)
      with t "1.prems" show ?thesis
        by (simp add: Picard_Newton_loop.simps[of _ _ _ _ _ _ _ converged k])
    next
      case (Returned s d' m')
      with t "1.prems" have "s = sol" "d' = d" "m' = m"
        by (simp_all add: Picard_Newton_loop.simps[of _ _ _ _ _ _ _ converged k])
      with Picard_Newton_body_Returned[OF Returned] show ?thesis
        by auto
    next
      case (Continue solk' interItr' newton' Jac' converged')
      with t "1.prems" have
        "Picard_Newton_loop F strict TypValue Tol maxitr relax PPN converged' (Suc k) solk'
           interItr' newton' Jac' = Inr (sol, d, m)"
        by (simp add: Picard_Newton_loop.simps[of _ _ _ _ _ _ _ converged k])
      from "1.IH"[OF t Continue this] show ?thesis .
    qed
  qed
qed

lemma Picard_Newton_not_converged:
  assumes "Picard_Newton F strict guess TypValue vk Tol maxitr relax PPN
             = Inr (sol, d, Not_converged n)"
  shows "n = maxitr \<and> d = None \<and> (\<forall>x \<in> set sol. isnan x)"
  using Picard_Newton_loop_message[OF assms[unfolded Picard_Newton_def]] by simp

lemma small_negative_fix_nan:
  "\<exists>x \<in> set w_k. isnan x \<Longrightarrow> \<exists>x \<in> set (small_negative_fix w_k). isnan x"
proof -
  assume "\<exists>x \<in> set w_k. isnan x"
  then obtain x where x: "x \<in> set w_k" "isnan x" by blast
  from x(2) have "x = NaN" by (cases x) simp_all
  with x(1) have "NaN \<in> set (small_negative_fix w_k)"
    unfolding small_negative_fix_def Let_def by (force simp: image_iff)
  then show ?thesis by force
qed

lemma same_footprint_width_not_converged:
  assumes r: "same_footprint_width E Fr C ts Qin SP = Inr (w_k, C', Not_converged n)"
    and ne: "fr_EltCrack Fr \<noteq> []"
  shows "\<exists>x \<in> set w_k. isnan x"
proof -
  from r obtain wc sol wsol where
    b: "np_bin fl_add wc sol = Inr wsol"
    and nan: "\<forall>x \<in> set sol. isnan x"
    and p: "np_put (fr_w Fr) (fr_EltCrack Fr) wsol = Inr w_k"
    unfolding same_footprint_width_def Let_def
    by (auto simp: ebind_eq_Inr split: prod.splits dest!: Picard_Newton_not_converged)
  from np_bin_add_nan[OF b nan] have "\<forall>v \<in> set wsol. isnan v" .
  from np_put_written[OF p this, of "hd (fr_EltCrack Fr)"] ne
  have "isnan (w_k ! hd (fr_EltCrack Fr))" "hd (fr_EltCrack Fr) < length w_k"
    by simp_all
  then show ?thesis
    by (metis nth_mem)
qed

end
